theory Spec2Isabelle
  imports Main "HOL-Library.AList"
begin

section \<open>Values, rows and errors\<close>

text \<open>
  The repositories pass JavaScript objects to the store and get rows back. A value is one
  of the scalar kinds that occur in the sources; an object (and a returned row) is an
  association list from key to value, in insertion order, as \<open>Object.keys\<close> lists them.
\<close>

datatype js_value = JNull | JStr string | JNum int | JBool bool | JDate nat

type_synonym row = "(string \<times> js_value) list"

text \<open>
  The failures of the specification's taxonomy that the modelled code can produce.
  \<open>NotFound\<close> is the \<open>Error\<close> thrown by \<open>findById\<close> and \<open>getTenantInfo\<close>,
  \<open>QuotaExceeded\<close> the one thrown by \<open>validateQuota\<close>, \<open>Internal\<close> any rejection
  coming from the store (a statement it refuses, or a row count that \<open>one\<close> or
  \<open>oneOrNone\<close> does not accept).
\<close>

datatype error = NotFound | QuotaExceeded | UnsafeQuery | Internal

text \<open>pg-promise's \<open>oneOrNone\<close>: null for no row, the row for one, a rejection for more.\<close>

definition oneOrNone :: "'a list \<Rightarrow> error + 'a option" where
  "oneOrNone rs = (case rs of [] \<Rightarrow> Inr None | [r] \<Rightarrow> Inr (Some r) | _ \<Rightarrow> Inl Internal)"

text \<open>pg-promise's \<open>one\<close>: exactly one row, a rejection otherwise.\<close>

definition one :: "'a list \<Rightarrow> error + 'a" where
  "one rs = (case rs of [r] \<Rightarrow> Inr r | _ \<Rightarrow> Inl Internal)"

section \<open>Values of the store's column types\<close>

text \<open>
  The identifier columns of the schema have type UUID. The store reads the text of a
  uuid as its input routine does: an optional opening brace, sixteen bytes of two
  hexadecimal digits each, in either case, with an optional hyphen after every second
  byte but the last, the closing brace if there was an opening one, and nothing else.
  It prints a uuid in lower case in the form 8-4-4-4-12, and that text stands for the
  uuid here. Two texts name the same uuid exactly when they are read as the same value.
\<close>

definition hex_lower :: "char \<Rightarrow> char option" where
  "hex_lower c =
     (if c \<in> set ''0123456789abcdef'' then Some c
      else map_of (zip ''ABCDEF'' ''abcdef'') c)"

text \<open>Whether a hyphen may follow the byte, for the sixteen bytes in order.\<close>

definition hyphen_after :: "bool list" where
  "hyphen_after = [False, True, False, True, False, True, False, True,
                   False, True, False, True, False, True, False, False]"

fun uuid_bytes :: "bool list \<Rightarrow> string \<Rightarrow> (string \<times> string) option" where
  "uuid_bytes [] src = Some ([], src)"
| "uuid_bytes (h # hs) src =
     (case src of
        a # b # rest \<Rightarrow>
          (case hex_lower a of
             None \<Rightarrow> None
           | Some x \<Rightarrow>
               (case hex_lower b of
                  None \<Rightarrow> None
                | Some y \<Rightarrow>
                    (case uuid_bytes hs
                            (case rest of
                               [] \<Rightarrow> []
                             | c # r \<Rightarrow> if h \<and> c = CHR ''-'' then r else rest) of
                       None \<Rightarrow> None
                     | Some (ds, left) \<Rightarrow> Some (x # y # ds, left))))
      | _ \<Rightarrow> None)"

definition uuid_text :: "string \<Rightarrow> string" where
  "uuid_text ds = take 8 ds @ ''-'' @ take 4 (drop 8 ds) @ ''-'' @ take 4 (drop 12 ds)
                    @ ''-'' @ take 4 (drop 16 ds) @ ''-'' @ drop 20 ds"

definition uuid_in :: "string \<Rightarrow> string option" where
  "uuid_in s =
     (case s of
        [] \<Rightarrow> None
      | c # cs \<Rightarrow>
          if c = CHR ''{'' then
            (case uuid_bytes hyphen_after cs of
               None \<Rightarrow> None
             | Some (ds, left) \<Rightarrow> if left = ''}'' then Some (uuid_text ds) else None)
          else
            (case uuid_bytes hyphen_after s of
               None \<Rightarrow> None
             | Some (ds, left) \<Rightarrow> if left = [] then Some (uuid_text ds) else None))"

text \<open>
  A column of type VARCHAR(n) takes a text of at most \<open>n\<close> characters as it is, cuts a
  longer one to \<open>n\<close> characters when all the excess characters are spaces, and refuses
  it otherwise; a text with a zero character is refused.
\<close>

definition varchar :: "nat \<Rightarrow> string \<Rightarrow> string option" where
  "varchar n s =
     (if CHR 0x00 \<in> set s then None
      else if length s \<le> n then Some s
      else if list_all (\<lambda>c. c = CHR '' '') (drop n s) then Some (take n s)
      else None)"

text \<open>The INTEGER columns hold 32-bit integers; the store refuses to store a value out of range.\<close>

definition in_int4 :: "int \<Rightarrow> bool" where
  "in_int4 n = (- 2147483648 \<le> n \<and> n \<le> 2147483647)"

section \<open>BaseTenantRepository\<close>

text \<open>
  The table of the repository, the table \<open>audit_logs\<close>, and the lines written to the
  console.
\<close>

record audit_entry =
  audit_tenant_id :: string
  audit_user_id :: string
  audit_action :: string
  audit_resource :: string
  audit_resource_id :: "js_value option"
  audit_changes :: "row option"
  audit_previous :: "row option"
  audit_timestamp :: nat

record store =
  rows :: "row list"
  audit_logs :: "audit_entry list"
  console :: "string list"

text \<open>
  The repository is constructed with a table name; the table and the store behind it
  are parameters. \<open>column_in\<close> is the store's reading of a value written in a statement
  as a value of the named column: \<open>None\<close> when it refuses (no such column, or a text
  that is not of the column's type), otherwise the value it stores and compares.
  \<open>accepts\<close> says which rows the table admits (NOT NULL, CHECK, row-level policies),
  \<open>defaults\<close> gives the DEFAULT values of the columns other than \<open>id\<close> at a reading
  of \<open>NOW()\<close>. Every tenant-scoped table of the schema declares
  \<open>id UUID PRIMARY KEY DEFAULT gen_random_uuid()\<close>. \<open>run_text\<close> is what the store
  does with a statement text that is not one of the forms described below: its result
  rows or its refusal, and the state it leaves.
\<close>

record table_schema =
  tableName :: string
  column_in :: "string \<Rightarrow> js_value \<Rightarrow> js_value option"
  accepts :: "row \<Rightarrow> bool"
  defaults :: "nat \<Rightarrow> row"
  run_text :: "string \<Rightarrow> js_value list \<Rightarrow> store \<Rightarrow> (error + row list) \<times> store"

text \<open>
  What the surroundings supply to one call: the two readings of the clock by
  \<open>new Date()\<close>, the store's \<open>NOW()\<close> for the statement on the table and for the
  insert into \<open>audit_logs\<close>, the identifier \<open>gen_random_uuid()\<close> yields, and whether
  the store rejects the insert into \<open>audit_logs\<close>.
\<close>

record env =
  env_now :: nat
  env_now2 :: nat
  env_db_now :: nat
  env_audit_now :: nat
  env_uuid :: string
  env_audit_rejects :: bool

record TenantQueryOptions =
  opt_tenantId :: "string option"
  opt_userId :: "string option"
  includeTenantId :: bool
  validateTenantId :: bool
  auditLog :: bool

text \<open>\<open>options?.auditLog\<close> and \<open>options.userId\<close> for an optional \<open>options\<close> argument.\<close>

definition wants_audit :: "TenantQueryOptions option \<Rightarrow> bool" where
  "wants_audit options = (case options of None \<Rightarrow> False | Some opts \<Rightarrow> auditLog opts)"

definition options_userId :: "TenantQueryOptions option \<Rightarrow> string option" where
  "options_userId options = (case options of None \<Rightarrow> None | Some opts \<Rightarrow> opt_userId opts)"

subsection \<open>The predicates of the WHERE clauses\<close>

text \<open>
  \<open>column = value\<close> on a row, for a value already read by the store; a null never
  equals anything.
\<close>

definition col_eq :: "string \<Rightarrow> js_value \<Rightarrow> row \<Rightarrow> bool" where
  "col_eq c v r = (if v = JNull then False else map_of r c = Some v)"

definition scoped :: "js_value \<Rightarrow> js_value \<Rightarrow> row \<Rightarrow> bool" where
  "scoped t v r = (col_eq ''tenant_id'' t r \<and> col_eq ''id'' v r)"

definition id_of :: "row \<Rightarrow> js_value option" where
  "id_of r = map_of r ''id''"

subsection \<open>Statement texts built from the keys of an object\<close>

text \<open>
  \<open>create\<close> and \<open>update\<close> put the keys of the object into the statement text:
  \<open>columns.join(', ')\<close> inside the parentheses of the INSERT, \<open>col = $i\<close> joined by
  commas after SET. The texts are built here as the code builds them.
\<close>

fun join_comma :: "string list \<Rightarrow> string" where
  "join_comma [] = []"
| "join_comma [k] = k"
| "join_comma (k # ks) = k @ '', '' @ join_comma ks"

fun decimal :: "nat \<Rightarrow> string" where
  "decimal n = (if n < 10 then [''0123456789'' ! n]
                else decimal (n div 10) @ [''0123456789'' ! (n mod 10)])"

declare decimal.simps [simp del]

definition placeholders :: "nat \<Rightarrow> string" where
  "placeholders n = join_comma (map (\<lambda>i. ''$'' @ decimal (Suc i)) [0..<n])"

definition insert_text :: "string \<Rightarrow> string list \<Rightarrow> string" where
  "insert_text tbl columns =
     [CHR 0x0A] @ ''      INSERT INTO '' @ tbl @ '' ('' @ join_comma columns @ '')''
     @ [CHR 0x0A] @ ''      VALUES ('' @ placeholders (length columns) @ '')''
     @ [CHR 0x0A] @ ''      RETURNING *'' @ [CHR 0x0A] @ ''    ''"

definition setClause :: "string list \<Rightarrow> string" where
  "setClause columns =
     join_comma (map (\<lambda>(col, i). col @ '' = $'' @ decimal (Suc i)) (zip columns [0..<length columns]))"

definition update_text :: "string \<Rightarrow> string list \<Rightarrow> string" where
  "update_text tbl columns =
     [CHR 0x0A] @ ''      UPDATE '' @ tbl
     @ [CHR 0x0A] @ ''      SET '' @ setClause columns
     @ [CHR 0x0A] @ ''      WHERE tenant_id = $'' @ decimal (length columns + 1)
     @ [CHR 0x0A] @ ''      AND id = $'' @ decimal (length columns + 2)
     @ [CHR 0x0A] @ ''      RETURNING *'' @ [CHR 0x0A] @ ''    ''"

text \<open>
  A key that the store reads as one column name and nothing else: a lower-case letter
  or underscore followed by lower-case letters, digits and underscores, at most 63
  characters.
\<close>

definition plain_identifier :: "string \<Rightarrow> bool" where
  "plain_identifier k =
     (case k of
        [] \<Rightarrow> False
      | c # cs \<Rightarrow>
          c \<in> set ''abcdefghijklmnopqrstuvwxyz_''
          \<and> list_all (\<lambda>x. x \<in> set ''abcdefghijklmnopqrstuvwxyz_0123456789'') cs
          \<and> length k \<le> 63)"

text \<open>
  How the store reads the column list of the INSERT text. When every key is a plain
  identifier the list is the keys. Otherwise a key can change the statement. One such
  form is read here: the joined text holds \<open>--\<close>, which starts a comment that runs to
  the end of the line and so removes the rest of the list and its closing parenthesis;
  when the text before it is a list of plain identifiers with a closing parenthesis of
  its own, and the commented part holds no line break and no \<open>$\<close> (which pg-promise
  would replace), the statement is an INSERT into exactly the columns before the
  comment, with the VALUES line that follows. Every other text is left to \<open>run_text\<close>.
\<close>

datatype reading = Columns "string list" | Other

fun cut_line_comment :: "string \<Rightarrow> string \<times> string option" where
  "cut_line_comment (a # b # cs) =
     (if a = CHR ''-'' \<and> b = CHR ''-'' then ([], Some cs)
      else (case cut_line_comment (b # cs) of (p, r) \<Rightarrow> (a # p, r)))"
| "cut_line_comment cs = (cs, None)"

fun split_commas :: "string \<Rightarrow> string list" where
  "split_commas [] = [[]]"
| "split_commas (c # cs) =
     (case split_commas cs of
        [] \<Rightarrow> [[c]]
      | w # ws \<Rightarrow> if c = CHR '','' then [] # w # ws else (c # w) # ws)"

definition trim :: "string \<Rightarrow> string" where
  "trim s = rev (dropWhile (\<lambda>c. c = CHR '' '') (rev (dropWhile (\<lambda>c. c = CHR '' '') s)))"

definition comment_reading :: "string \<Rightarrow> reading" where
  "comment_reading text =
     (case cut_line_comment text of
        (pre, None) \<Rightarrow> Other
      | (pre, Some rest) \<Rightarrow>
          if list_ex (\<lambda>c. c \<in> set [CHR 0x0A, CHR 0x0D, CHR ''$'']) rest then Other
          else
            (case dropWhile (\<lambda>c. c \<noteq> CHR '')'') pre of
               [] \<Rightarrow> Other
             | paren # after \<Rightarrow>
                 if list_all (\<lambda>c. c = CHR '' '') after then
                   (let items = map trim (split_commas (takeWhile (\<lambda>c. c \<noteq> CHR '')'') pre))
                    in if list_all plain_identifier items then Columns items else Other)
                 else Other))"

definition statement_columns :: "string list \<Rightarrow> reading" where
  "statement_columns keys =
     (if list_all plain_identifier keys then Columns keys
      else comment_reading (join_comma keys @ '')''))"

subsection \<open>The statements on the table\<close>

text \<open>The values of a column list as the store reads them, column by column.\<close>

fun convert :: "table_schema \<Rightarrow> row \<Rightarrow> row option" where
  "convert sch [] = Some []"
| "convert sch ((c, v) # kvs) =
     (case column_in sch c v of
        None \<Rightarrow> None
      | Some v' \<Rightarrow> map_option (Cons (c, v')) (convert sch kvs))"

text \<open>
  The row an INSERT stores: the columns given, then the defaults of the columns not given
  (\<open>id\<close> first).
\<close>

definition fill_defaults :: "table_schema \<Rightarrow> env \<Rightarrow> row \<Rightarrow> row" where
  "fill_defaults sch e cols =
     cols @ filter (\<lambda>(c, v). map_of cols c = None)
              ((''id'', JStr (env_uuid e)) # defaults sch (env_db_now e))"

text \<open>
  An INSERT into the given columns with \<open>RETURNING *\<close>. The store refuses it when the
  numbers of columns and values differ, when a column is named twice, when it cannot
  read a value as one of its column, when the table does not admit the row, and when
  the \<open>id\<close> is null or already present.
\<close>

definition insert_row :: "table_schema \<Rightarrow> env \<Rightarrow> row list \<Rightarrow> string list \<Rightarrow> js_value list
    \<Rightarrow> error + (row \<times> row list)" where
  "insert_row sch e rs cols vals =
     (if length cols = length vals then
        (if distinct cols then
           (case convert sch (zip cols vals) of
              None \<Rightarrow> Inl Internal
            | Some given \<Rightarrow>
                (let r = fill_defaults sch e given in
                 if accepts sch r then
                   (if id_of r = Some JNull then Inl Internal
                    else if id_of r \<in> set (map id_of rs) then Inl Internal
                    else Inr (r, rs @ [r]))
                 else Inl Internal))
         else Inl Internal)
      else Inl Internal)"

text \<open>The INSERT that \<open>create\<close> sends, as the store runs it.\<close>

definition run_insert :: "table_schema \<Rightarrow> env \<Rightarrow> store \<Rightarrow> string list \<Rightarrow> js_value list
    \<Rightarrow> (error + row list) \<times> store" where
  "run_insert sch e s columns values =
     (case statement_columns columns of
        Columns cs \<Rightarrow>
          (case insert_row sch e (rows s) cs values of
             Inl err \<Rightarrow> (Inl err, s)
           | Inr (r, rs') \<Rightarrow> (Inr [r], s\<lparr>rows := rs'\<rparr>))
      | Other \<Rightarrow> run_text sch (insert_text (tableName sch) columns) values s)"

text \<open>\<open>SET c1 = v1, c2 = v2, ...\<close> applied to one row.\<close>

definition apply_set :: "row \<Rightarrow> row \<Rightarrow> row" where
  "apply_set cols r = fold (\<lambda>(c, v). AList.update c v) cols r"

text \<open>
  \<open>UPDATE t SET ... WHERE tenant_id = t AND id = v RETURNING *\<close> for a SET list of
  columns. The statement is refused, and changes nothing, when a row it would write is
  not admitted or the identifiers would no longer be unique and non-null; otherwise it
  yields the rows written and the new table.
\<close>

definition update_rows :: "table_schema \<Rightarrow> row list \<Rightarrow> js_value \<Rightarrow> js_value \<Rightarrow> row
    \<Rightarrow> error + (row list \<times> row list)" where
  "update_rows sch rs t v cols =
     (let written = map (apply_set cols) (filter (scoped t v) rs);
          rs' = map (\<lambda>r. if scoped t v r then apply_set cols r else r) rs
      in if written = [] then Inr ([], rs)
         else if list_all (accepts sch) written then
           (if Some JNull \<in> set (map id_of written) then Inl Internal
            else if distinct (map id_of rs') then Inr (written, rs')
            else Inl Internal)
         else Inl Internal)"

text \<open>
  The UPDATE that \<open>update\<close> sends, as the store runs it: with plain identifiers as
  keys the SET list is the keys, each value read as one of its column; any other text
  is left to \<open>run_text\<close>.
\<close>

definition run_update :: "table_schema \<Rightarrow> store \<Rightarrow> string \<Rightarrow> string \<Rightarrow> row
    \<Rightarrow> (error + row list) \<times> store" where
  "run_update sch s tenantId i d =
     (if list_all plain_identifier (map fst d) then
        (case column_in sch ''tenant_id'' (JStr tenantId) of
           None \<Rightarrow> (Inl Internal, s)
         | Some t \<Rightarrow>
             (case column_in sch ''id'' (JStr i) of
                None \<Rightarrow> (Inl Internal, s)
              | Some v \<Rightarrow>
                  (if distinct (map fst d) then
                     (case convert sch d of
                        None \<Rightarrow> (Inl Internal, s)
                      | Some cols \<Rightarrow>
                          (case update_rows sch (rows s) t v cols of
                             Inl err \<Rightarrow> (Inl err, s)
                           | Inr (written, rs') \<Rightarrow> (Inr written, s\<lparr>rows := rs'\<rparr>)))
                   else (Inl Internal, s))))
      else run_text sch (update_text (tableName sch) (map fst d))
             (map snd d @ [JStr tenantId, JStr i]) s)"

text \<open>\<open>DELETE FROM t WHERE tenant_id = t AND id = v\<close>: the row count and the new table.\<close>

definition delete_result :: "row list \<Rightarrow> js_value \<Rightarrow> js_value \<Rightarrow> nat \<times> row list" where
  "delete_result rs t v =
     (length (filter (scoped t v) rs), filter (\<lambda>r. \<not> scoped t v r) rs)"

subsection \<open>Reads\<close>

text \<open>
  \<open>findAll\<close>: \<open>SELECT * FROM t WHERE tenant_id = $1 LIMIT $2 OFFSET $3\<close> with
  \<open>options?.limit || 1000\<close> and \<open>options?.offset || 0\<close>; the store refuses a tenant id
  it cannot read and a negative LIMIT or OFFSET.
\<close>

definition or_default :: "int option \<Rightarrow> int \<Rightarrow> int" where
  "or_default v d = (case v of None \<Rightarrow> d | Some n \<Rightarrow> if n = 0 then d else n)"

definition findAll :: "table_schema \<Rightarrow> store \<Rightarrow> string \<Rightarrow> (int option \<times> int option) option
    \<Rightarrow> error + row list" where
  "findAll sch s tenantId options =
     (let lim = or_default (case options of None \<Rightarrow> None | Some (l, off) \<Rightarrow> l) 1000;
          off = or_default (case options of None \<Rightarrow> None | Some (l, off) \<Rightarrow> off) 0
      in case column_in sch ''tenant_id'' (JStr tenantId) of
           None \<Rightarrow> Inl Internal
         | Some t \<Rightarrow>
             if lim < 0 \<or> off < 0 then Inl Internal
             else Inr (take (nat lim) (drop (nat off) (filter (col_eq ''tenant_id'' t) (rows s)))))"

text \<open>
  \<open>findById\<close>: \<open>SELECT * FROM t WHERE tenant_id = $1 AND id = $2\<close> through
  \<open>oneOrNone\<close>; the store refuses a tenant id or id it cannot read, and no row throws
  the not-found error.
\<close>

definition findById :: "table_schema \<Rightarrow> store \<Rightarrow> string \<Rightarrow> string \<Rightarrow> error + row" where
  "findById sch s tenantId i =
     (case column_in sch ''tenant_id'' (JStr tenantId) of
        None \<Rightarrow> Inl Internal
      | Some t \<Rightarrow>
          (case column_in sch ''id'' (JStr i) of
             None \<Rightarrow> Inl Internal
           | Some v \<Rightarrow>
               (case oneOrNone (filter (scoped t v) (rows s)) of
                  Inl e \<Rightarrow> Inl e
                | Inr None \<Rightarrow> Inl NotFound
                | Inr (Some record) \<Rightarrow> Inr record)))"

subsection \<open>Audit\<close>

text \<open>The INSERT into \<open>audit_logs\<close>, through \<open>none\<close>.\<close>

definition audit_insert :: "env \<Rightarrow> store \<Rightarrow> audit_entry \<Rightarrow> error + store" where
  "audit_insert e s entry =
     (if env_audit_rejects e then Inl Internal
      else Inr (s\<lparr>audit_logs := audit_logs s @ [entry]\<rparr>))"

text \<open>
  \<open>logAudit\<close>: the INSERT inside \<open>try\<close>; the \<open>catch\<close> writes to the console and
  throws nothing. \<open>userId || 'system'\<close> replaces a missing or empty user id.
\<close>

definition logAudit :: "env \<Rightarrow> store \<Rightarrow> string \<Rightarrow> string option \<Rightarrow> string \<Rightarrow> string
    \<Rightarrow> js_value option \<Rightarrow> row option \<Rightarrow> row option \<Rightarrow> store" where
  "logAudit e s tenantId userId action resource resourceId changes previous =
     (case audit_insert e s
         \<lparr>audit_tenant_id = tenantId,
          audit_user_id = (case userId of None \<Rightarrow> ''system'' | Some u \<Rightarrow> if u = [] then ''system'' else u),
          audit_action = action, audit_resource = resource, audit_resource_id = resourceId,
          audit_changes = changes, audit_previous = previous,
          audit_timestamp = env_audit_now e\<rparr> of
        Inl err \<Rightarrow> s\<lparr>console := console s @ [''Error logging audit:'']\<rparr>
      | Inr s' \<Rightarrow> s')"

subsection \<open>Writes\<close>

text \<open>
  \<open>create\<close>: \<open>{...data, tenant_id: tenantId, created_at: new Date(), updated_at: new Date()}\<close>;
  its keys go into the INSERT text and its values are the parameters; the statement
  runs through \<open>one\<close>, and the audit entry is written after it when
  \<open>options?.auditLog\<close> is set.
\<close>

definition dataWithTenant :: "env \<Rightarrow> string \<Rightarrow> row \<Rightarrow> row" where
  "dataWithTenant e tenantId data =
     AList.update ''updated_at'' (JDate (env_now2 e))
       (AList.update ''created_at'' (JDate (env_now e))
         (AList.update ''tenant_id'' (JStr tenantId) data))"

definition create :: "table_schema \<Rightarrow> env \<Rightarrow> store \<Rightarrow> string \<Rightarrow> row \<Rightarrow> TenantQueryOptions option
    \<Rightarrow> (error + row) \<times> store" where
  "create sch e s tenantId data options =
     (case run_insert sch e s (map fst (dataWithTenant e tenantId data))
             (map snd (dataWithTenant e tenantId data)) of
        (Inl err, s1) \<Rightarrow> (Inl err, s1)
      | (Inr result, s1) \<Rightarrow>
          (case one result of
             Inl err \<Rightarrow> (Inl err, s1)
           | Inr record \<Rightarrow>
               (Inr record,
                if wants_audit options
                then logAudit e s1 tenantId (options_userId options) ''CREATE'' (tableName sch)
                       (id_of record) (Some data) None
                else s1)))"

text \<open>
  \<open>update\<close>: \<open>findById\<close> first (its throw leaves the function at once, so the
  \<open>if (!existing)\<close> after it never fires); then the UPDATE through \<open>one\<close>, then the
  audit entry with the previous row.
\<close>

definition dataWithTimestamp :: "env \<Rightarrow> row \<Rightarrow> row" where
  "dataWithTimestamp e data = AList.update ''updated_at'' (JDate (env_now e)) data"

definition update :: "table_schema \<Rightarrow> env \<Rightarrow> store \<Rightarrow> string \<Rightarrow> string \<Rightarrow> row \<Rightarrow> TenantQueryOptions option
    \<Rightarrow> (error + row) \<times> store" where
  "update sch e s tenantId i data options =
     (case findById sch s tenantId i of
        Inl err \<Rightarrow> (Inl err, s)
      | Inr existing \<Rightarrow>
          (case run_update sch s tenantId i (dataWithTimestamp e data) of
             (Inl err, s1) \<Rightarrow> (Inl err, s1)
           | (Inr result, s1) \<Rightarrow>
               (case one result of
                  Inl err \<Rightarrow> (Inl err, s1)
                | Inr updated \<Rightarrow>
                    (Inr updated,
                     if wants_audit options
                     then logAudit e s1 tenantId (options_userId options) ''UPDATE''
                            (tableName sch) (Some (JStr i)) (Some data) (Some existing)
                     else s1))))"

text \<open>
  \<open>delete\<close>: \<open>findById\<close> first, then the DELETE, then the audit entry; the result is
  whether exactly one row was removed.
\<close>

definition delete :: "table_schema \<Rightarrow> env \<Rightarrow> store \<Rightarrow> string \<Rightarrow> string \<Rightarrow> TenantQueryOptions option
    \<Rightarrow> (error + bool) \<times> store" where
  "delete sch e s tenantId i options =
     (case findById sch s tenantId i of
        Inl err \<Rightarrow> (Inl err, s)
      | Inr existing \<Rightarrow>
          (case column_in sch ''tenant_id'' (JStr tenantId) of
             None \<Rightarrow> (Inl Internal, s)
           | Some t \<Rightarrow>
               (case column_in sch ''id'' (JStr i) of
                  None \<Rightarrow> (Inl Internal, s)
                | Some v \<Rightarrow>
                    (case delete_result (rows s) t v of
                       (rowCount, rs') \<Rightarrow>
                         (Inr (rowCount = 1),
                          if wants_audit options
                          then logAudit e (s\<lparr>rows := rs'\<rparr>) tenantId (options_userId options)
                                 ''DELETE'' (tableName sch) (Some (JStr i)) None None
                          else s\<lparr>rows := rs'\<rparr>)))))"

section \<open>TenantService\<close>

text \<open>
  The tables \<open>tenants\<close>, \<open>tenant_settings\<close> and \<open>tenant_quotas\<close> of the schema, with
  the columns the service reads or writes, and the store's clock (\<open>NOW()\<close>, in seconds).
  The tenant identifiers are UUID columns; a stored identifier is the text the store
  prints for it.
\<close>

record tenant_row =
  t_id :: string
  t_name :: string
  t_slug :: string
  t_email :: string
  t_plan :: string
  t_status :: string
  t_created_at :: nat
  t_updated_at :: nat
  t_deleted_at :: "nat option"

record settings_row =
  ts_tenant_id :: string
  ts_max_users :: int
  ts_max_orders :: int
  ts_max_events :: int
  ts_features :: "string list"
  ts_webhook_url :: "string option"
  ts_custom_domain :: "string option"
  ts_data_residency :: string
  ts_encryption_enabled :: bool

record quota_row =
  tq_tenant_id :: string
  tq_max_users :: int
  tq_used_users :: int
  tq_max_orders :: int
  tq_used_orders :: int
  tq_max_events :: int
  tq_used_events :: int
  tq_storage_quota_mb :: int
  tq_used_storage_mb :: int
  tq_api_calls_per_day :: int
  tq_used_api_calls :: int
  tq_reset_date :: nat
  tq_updated_at :: nat

record tenant_db =
  tenants :: "tenant_row list"
  tenant_settings :: "settings_row list"
  tenant_quotas :: "quota_row list"
  clock :: nat

text \<open>The interfaces \<open>TenantSettings\<close>, \<open>TenantInfo\<close> and \<open>TenantQuota\<close>.\<close>

record TenantSettings =
  settings_maxUsers :: int
  settings_maxOrders :: int
  settings_maxEvents :: int
  settings_features :: "string list option"
  settings_webhookUrl :: "string option"
  settings_customDomain :: "string option"
  settings_dataResidency :: string
  settings_encryptionEnabled :: bool

record TenantInfo =
  info_id :: string
  info_name :: string
  info_slug :: string
  info_email :: string
  info_plan :: string
  info_status :: string
  info_createdAt :: nat
  info_updatedAt :: nat
  info_settings :: "TenantSettings option"

record TenantQuota =
  quota_tenantId :: string
  maxUsers :: int
  usedUsers :: int
  maxOrders :: int
  usedOrders :: int
  maxEvents :: int
  usedEvents :: int
  storageQuota :: int
  usedStorage :: int
  apiCallsPerDay :: int
  usedApiCalls :: int
  resetDate :: nat

subsection \<open>Reads\<close>

text \<open>
  \<open>getTenantSettings\<close>: \<open>SELECT * FROM tenant_settings WHERE tenant_id = $1\<close> through
  \<open>oneOrNone\<close>; the store refuses a tenant id that is not the text of a uuid; without
  a row, the defaults written in the function.
\<close>

definition getTenantSettings :: "tenant_db \<Rightarrow> string \<Rightarrow> error + TenantSettings" where
  "getTenantSettings db tenantId =
     (case uuid_in tenantId of
        None \<Rightarrow> Inl Internal
      | Some u \<Rightarrow>
          (case oneOrNone (filter (\<lambda>r. ts_tenant_id r = u) (tenant_settings db)) of
             Inl e \<Rightarrow> Inl e
           | Inr None \<Rightarrow>
               Inr \<lparr>settings_maxUsers = 10, settings_maxOrders = 1000, settings_maxEvents = 100,
                    settings_features = None, settings_webhookUrl = None,
                    settings_customDomain = None, settings_dataResidency = ''global'',
                    settings_encryptionEnabled = False\<rparr>
           | Inr (Some settings) \<Rightarrow>
               Inr \<lparr>settings_maxUsers = ts_max_users settings,
                    settings_maxOrders = ts_max_orders settings,
                    settings_maxEvents = ts_max_events settings,
                    settings_features = Some (ts_features settings),
                    settings_webhookUrl = ts_webhook_url settings,
                    settings_customDomain = ts_custom_domain settings,
                    settings_dataResidency = ts_data_residency settings,
                    settings_encryptionEnabled = ts_encryption_enabled settings\<rparr>))"

text \<open>
  \<open>getTenantInfo\<close>: \<open>SELECT * FROM tenants WHERE id = $1 AND deleted_at IS NULL\<close>
  through \<open>oneOrNone\<close>; no row throws the not-found error.
\<close>

definition getTenantInfo :: "tenant_db \<Rightarrow> string \<Rightarrow> error + TenantInfo" where
  "getTenantInfo db tenantId =
     (case uuid_in tenantId of
        None \<Rightarrow> Inl Internal
      | Some u \<Rightarrow>
          (case oneOrNone (filter (\<lambda>r. t_id r = u \<and> t_deleted_at r = None) (tenants db)) of
             Inl e \<Rightarrow> Inl e
           | Inr None \<Rightarrow> Inl NotFound
           | Inr (Some tenant) \<Rightarrow>
               (case getTenantSettings db tenantId of
                  Inl e \<Rightarrow> Inl e
                | Inr settings \<Rightarrow>
                    Inr \<lparr>info_id = t_id tenant, info_name = t_name tenant,
                         info_slug = t_slug tenant, info_email = t_email tenant,
                         info_plan = t_plan tenant, info_status = t_status tenant,
                         info_createdAt = t_created_at tenant,
                         info_updatedAt = t_updated_at tenant,
                         info_settings = Some settings\<rparr>)))"

text \<open>
  The rows of \<open>SELECT * FROM tenant_quotas WHERE tenant_id = $1\<close>, and \<open>getQuotas\<close>,
  which takes them through \<open>one\<close>.
\<close>

definition select_quotas :: "tenant_db \<Rightarrow> string \<Rightarrow> error + quota_row list" where
  "select_quotas db tenantId =
     (case uuid_in tenantId of
        None \<Rightarrow> Inl Internal
      | Some u \<Rightarrow> Inr (filter (\<lambda>r. tq_tenant_id r = u) (tenant_quotas db)))"

definition getQuotas :: "tenant_db \<Rightarrow> string \<Rightarrow> error + TenantQuota" where
  "getQuotas db tenantId =
     (case select_quotas db tenantId of
        Inl e \<Rightarrow> Inl e
      | Inr result \<Rightarrow>
          (case one result of
             Inl e \<Rightarrow> Inl e
           | Inr quota \<Rightarrow>
               Inr \<lparr>quota_tenantId = tq_tenant_id quota,
                    maxUsers = tq_max_users quota, usedUsers = tq_used_users quota,
                    maxOrders = tq_max_orders quota, usedOrders = tq_used_orders quota,
                    maxEvents = tq_max_events quota, usedEvents = tq_used_events quota,
                    storageQuota = tq_storage_quota_mb quota,
                    usedStorage = tq_used_storage_mb quota,
                    apiCallsPerDay = tq_api_calls_per_day quota,
                    usedApiCalls = tq_used_api_calls quota,
                    resetDate = tq_reset_date quota\<rparr>))"

text \<open>\<open>validateQuota\<close>: the \<open>switch\<close> over the resource; a resource with no case returns true.\<close>

definition validateQuota :: "tenant_db \<Rightarrow> string \<Rightarrow> string \<Rightarrow> error + bool" where
  "validateQuota db tenantId resource =
     (case getQuotas db tenantId of
        Inl e \<Rightarrow> Inl e
      | Inr quota \<Rightarrow>
          if resource = ''users'' then
            (if usedUsers quota \<ge> maxUsers quota then Inl QuotaExceeded else Inr True)
          else if resource = ''orders'' then
            (if usedOrders quota \<ge> maxOrders quota then Inl QuotaExceeded else Inr True)
          else if resource = ''events'' then
            (if usedEvents quota \<ge> maxEvents quota then Inl QuotaExceeded else Inr True)
          else if resource = ''api_calls'' then
            (if usedApiCalls quota \<ge> apiCallsPerDay quota then Inl QuotaExceeded else Inr True)
          else Inr True)"

subsection \<open>Counters\<close>

text \<open>
  \<open>getQuotaFieldForResource\<close> reads \<open>fields[resource]\<close> on the object literal
  \<open>fields\<close> (\<open>quota_fields\<close> below) and falls back to \<open>used_orders\<close> with
  \<open>||\<close>. The read follows the prototype chain: besides the five own keys, the names
  \<open>Object.prototype\<close> defines yield a native function (\<open>constructor\<close> yields
  \<open>Object\<close>) or, for \<open>__proto__\<close>, the prototype object; all of them are truthy,
  so \<open>||\<close> keeps them.
\<close>

datatype field_value = FStr string | FNative string | FProto

definition object_prototype_functions :: "string list" where
  "object_prototype_functions =
     [''__defineGetter__'', ''__defineSetter__'', ''hasOwnProperty'', ''__lookupGetter__'',
      ''__lookupSetter__'', ''isPrototypeOf'', ''propertyIsEnumerable'', ''toString'',
      ''valueOf'', ''toLocaleString'']"

definition quota_fields :: "string \<Rightarrow> field_value option" where
  "quota_fields resource =
     (if resource = ''users'' then Some (FStr ''used_users'')
      else if resource = ''orders'' then Some (FStr ''used_orders'')
      else if resource = ''events'' then Some (FStr ''used_events'')
      else if resource = ''api_calls'' then Some (FStr ''used_api_calls'')
      else if resource = ''storage'' then Some (FStr ''used_storage_mb'')
      else if resource = ''constructor'' then Some (FNative ''Object'')
      else if resource \<in> set object_prototype_functions then Some (FNative resource)
      else if resource = ''__proto__'' then Some FProto
      else None)"

definition getQuotaFieldForResource :: "string \<Rightarrow> field_value" where
  "getQuotaFieldForResource resource =
     (case quota_fields resource of Some v \<Rightarrow> v | None \<Rightarrow> FStr ''used_orders'')"

text \<open>The text \<open>${field}\<close> puts into the statement.\<close>

definition field_text :: "field_value \<Rightarrow> string" where
  "field_text v =
     (case v of
        FStr s \<Rightarrow> s
      | FNative n \<Rightarrow> ''function '' @ n @ ''() { [native code] }''
      | FProto \<Rightarrow> ''[object Object]'')"

text \<open>The counter columns of \<open>tenant_quotas\<close>, read and written by name.\<close>

definition counter_columns :: "string list" where
  "counter_columns =
     [''used_users'', ''used_orders'', ''used_events'', ''used_api_calls'', ''used_storage_mb'']"

definition counter_of :: "string \<Rightarrow> quota_row \<Rightarrow> int option" where
  "counter_of col q =
     (if col = ''used_users'' then Some (tq_used_users q)
      else if col = ''used_orders'' then Some (tq_used_orders q)
      else if col = ''used_events'' then Some (tq_used_events q)
      else if col = ''used_api_calls'' then Some (tq_used_api_calls q)
      else if col = ''used_storage_mb'' then Some (tq_used_storage_mb q)
      else None)"

definition set_counter :: "string \<Rightarrow> int \<Rightarrow> quota_row \<Rightarrow> quota_row" where
  "set_counter col v q =
     (if col = ''used_users'' then q\<lparr>tq_used_users := v\<rparr>
      else if col = ''used_orders'' then q\<lparr>tq_used_orders := v\<rparr>
      else if col = ''used_events'' then q\<lparr>tq_used_events := v\<rparr>
      else if col = ''used_api_calls'' then q\<lparr>tq_used_api_calls := v\<rparr>
      else if col = ''used_storage_mb'' then q\<lparr>tq_used_storage_mb := v\<rparr>
      else q)"

definition bump :: "string \<Rightarrow> int \<Rightarrow> nat \<Rightarrow> quota_row \<Rightarrow> quota_row" where
  "bump col amount t q =
     (case counter_of col q of
        None \<Rightarrow> q
      | Some c \<Rightarrow> (set_counter col (c + amount) q)\<lparr>tq_updated_at := t\<rparr>)"

text \<open>
  \<open>UPDATE tenant_quotas SET f = f + $2, updated_at = NOW() WHERE tenant_id = $1\<close> with
  the text \<open>f\<close> interpolated. The store refuses the statement when \<open>f\<close> is not a
  counter column, when the tenant id is not the text of a uuid, or when a sum it would
  store leaves the range of the column; a statement that matches no row succeeds.
\<close>

definition update_counter :: "tenant_db \<Rightarrow> string \<Rightarrow> string \<Rightarrow> int \<Rightarrow> error + tenant_db" where
  "update_counter db f tenantId amount =
     (if f \<in> set counter_columns then
        (case uuid_in tenantId of
           None \<Rightarrow> Inl Internal
         | Some u \<Rightarrow>
             (if list_all (\<lambda>q. case counter_of f q of None \<Rightarrow> False
                                | Some c \<Rightarrow> in_int4 (c + amount))
                   (filter (\<lambda>q. tq_tenant_id q = u) (tenant_quotas db))
              then Inr (db\<lparr>tenant_quotas :=
                     map (\<lambda>q. if tq_tenant_id q = u then bump f amount (clock db) q else q)
                       (tenant_quotas db)\<rparr>)
              else Inl Internal))
      else Inl Internal)"

text \<open>\<open>incrementQuota\<close>: the statement through \<open>none\<close>.\<close>

definition incrementQuota :: "tenant_db \<Rightarrow> string \<Rightarrow> string \<Rightarrow> int \<Rightarrow> (error + unit) \<times> tenant_db" where
  "incrementQuota db tenantId resource amount =
     (case update_counter db (field_text (getQuotaFieldForResource resource)) tenantId amount of
        Inl e \<Rightarrow> (Inl e, db)
      | Inr db' \<Rightarrow> (Inr (), db'))"

subsection \<open>Onboarding\<close>

text \<open>The argument of \<open>createTenant\<close>; \<open>plan\<close> is optional.\<close>

record create_tenant_data =
  data_name :: string
  data_slug :: string
  data_email :: string
  data_plan :: "string option"

text \<open>\<open>data.plan || 'free'\<close>: a missing or empty plan becomes \<open>free\<close>.\<close>

definition plan_or_free :: "string option \<Rightarrow> string" where
  "plan_or_free p = (case p of None \<Rightarrow> ''free'' | Some v \<Rightarrow> if v = [] then ''free'' else v)"

text \<open>
  \<open>INSERT INTO tenants (name, slug, email, plan, status) VALUES ($1, $2, $3, $4, 'active')
  RETURNING *\<close>. The schema makes \<open>id\<close> the primary key with default
  \<open>gen_random_uuid()\<close>, \<open>slug\<close> unique, gives \<open>name\<close> and \<open>email\<close> the type
  VARCHAR(255), \<open>slug\<close> VARCHAR(100) and \<open>plan\<close> VARCHAR(50), and restricts \<open>plan\<close>
  to four values; the timestamps default to \<open>NOW()\<close>. The row holds the texts as the
  columns store them.
\<close>

definition tenants_insert :: "tenant_db \<Rightarrow> string \<Rightarrow> string \<Rightarrow> string \<Rightarrow> string \<Rightarrow> string
    \<Rightarrow> error + (tenant_row \<times> tenant_db)" where
  "tenants_insert db u name slug email plan =
     (case varchar 255 name of
        None \<Rightarrow> Inl Internal
      | Some name' \<Rightarrow>
          (case varchar 100 slug of
             None \<Rightarrow> Inl Internal
           | Some slug' \<Rightarrow>
               (case varchar 255 email of
                  None \<Rightarrow> Inl Internal
                | Some email' \<Rightarrow>
                    (case varchar 50 plan of
                       None \<Rightarrow> Inl Internal
                     | Some plan' \<Rightarrow>
                         if plan' \<in> set [''free'', ''pro'', ''enterprise'', ''custom''] then
                           (if u \<in> set (map t_id (tenants db)) then Inl Internal
                            else if slug' \<in> set (map t_slug (tenants db)) then Inl Internal
                            else Inr (\<lparr>t_id = u, t_name = name', t_slug = slug',
                                       t_email = email', t_plan = plan', t_status = ''active'',
                                       t_created_at = clock db, t_updated_at = clock db,
                                       t_deleted_at = None\<rparr>,
                                      db\<lparr>tenants := tenants db @
                                        [\<lparr>t_id = u, t_name = name', t_slug = slug',
                                          t_email = email', t_plan = plan',
                                          t_status = ''active'', t_created_at = clock db,
                                          t_updated_at = clock db, t_deleted_at = None\<rparr>]\<rparr>))
                         else Inl Internal))))"

text \<open>
  \<open>INSERT INTO tenant_settings (tenant_id, max_users, max_orders, max_events)
  VALUES ($1, 10, 1000, 100)\<close>; \<open>tenant_id\<close> is unique, the other columns take their
  defaults.
\<close>

definition settings_insert :: "tenant_db \<Rightarrow> string \<Rightarrow> error + tenant_db" where
  "settings_insert db tid =
     (if tid \<in> set (map ts_tenant_id (tenant_settings db)) then Inl Internal
      else Inr (db\<lparr>tenant_settings := tenant_settings db @
              [\<lparr>ts_tenant_id = tid, ts_max_users = 10, ts_max_orders = 1000, ts_max_events = 100,
                ts_features = [], ts_webhook_url = None, ts_custom_domain = None,
                ts_data_residency = ''us'', ts_encryption_enabled = False\<rparr>]\<rparr>))"

text \<open>
  \<open>INSERT INTO tenant_quotas (tenant_id, max_users, max_orders, max_events,
  api_calls_per_day) VALUES ($1, 10, 1000, 100, 10000)\<close>; \<open>tenant_id\<close> is unique, the
  counters default to 0, \<open>reset_date\<close> to \<open>NOW() + INTERVAL '1 day'\<close>.
\<close>

definition quotas_insert :: "tenant_db \<Rightarrow> string \<Rightarrow> error + tenant_db" where
  "quotas_insert db tid =
     (if tid \<in> set (map tq_tenant_id (tenant_quotas db)) then Inl Internal
      else Inr (db\<lparr>tenant_quotas := tenant_quotas db @
              [\<lparr>tq_tenant_id = tid, tq_max_users = 10, tq_used_users = 0,
                tq_max_orders = 1000, tq_used_orders = 0, tq_max_events = 100,
                tq_used_events = 0, tq_storage_quota_mb = 1000, tq_used_storage_mb = 0,
                tq_api_calls_per_day = 10000, tq_used_api_calls = 0,
                tq_reset_date = clock db + 86400, tq_updated_at = clock db\<rparr>]\<rparr>))"

text \<open>
  \<open>createTenant\<close>: the three inserts one after the other, each its own statement with
  its own reading of \<open>NOW()\<close> (the second \<open>d1\<close> after the first, the third \<open>d2\<close>
  after the second), so a later failure keeps what the earlier ones wrote. The result
  carries no settings.
\<close>

definition later :: "nat \<Rightarrow> tenant_db \<Rightarrow> tenant_db" where
  "later d db = db\<lparr>clock := clock db + d\<rparr>"

definition createTenant :: "tenant_db \<Rightarrow> string \<Rightarrow> nat \<Rightarrow> nat \<Rightarrow> create_tenant_data
    \<Rightarrow> (error + TenantInfo) \<times> tenant_db" where
  "createTenant db u d1 d2 data =
     (case tenants_insert db u (data_name data) (data_slug data) (data_email data)
             (plan_or_free (data_plan data)) of
        Inl e \<Rightarrow> (Inl e, db)
      | Inr (tenant, db1) \<Rightarrow>
          (case settings_insert (later d1 db1) (t_id tenant) of
             Inl e \<Rightarrow> (Inl e, later d1 db1)
           | Inr db2 \<Rightarrow>
               (case quotas_insert (later d2 db2) (t_id tenant) of
                  Inl e \<Rightarrow> (Inl e, later d2 db2)
                | Inr db3 \<Rightarrow>
                    (Inr \<lparr>info_id = t_id tenant, info_name = t_name tenant,
                          info_slug = t_slug tenant, info_email = t_email tenant,
                          info_plan = t_plan tenant, info_status = t_status tenant,
                          info_createdAt = t_created_at tenant,
                          info_updatedAt = t_updated_at tenant, info_settings = None\<rparr>, db3))))"

section \<open>The tenant extraction middleware\<close>

text \<open>
  The payload of a token and the context built from it. A claim the token does not carry
  is \<open>None\<close>.
\<close>

record JWTPayload =
  jwt_sub :: "string option"
  jwt_tenant_id :: "string option"
  jwt_tenant_name :: "string option"
  jwt_role :: "string option"
  jwt_permissions :: "string list option"
  jwt_plan :: "string option"
  jwt_iat :: "nat option"
  jwt_exp :: "nat option"
  jwt_nbf :: "nat option"
  jwt_metadata :: "row option"

record TenantContext =
  ctx_tenantId :: string
  ctx_userId :: "string option"
  ctx_tenantName :: "string option"
  ctx_plan :: string
  ctx_role :: string
  ctx_permissions :: "string list"
  ctx_issuedAt :: "nat option"
  ctx_expiresAt :: "nat option"
  ctx_metadata :: "row option"

text \<open>
  What the bearer string decodes to: nothing usable, or a payload signed with some key.
  The decoding is the library's and is a parameter of the middleware.
\<close>

datatype credential = Malformed | Signed string JWTPayload

text \<open>
  The errors \<open>jwt.verify\<close> of the jsonwebtoken library throws. Its classes
  \<open>TokenExpiredError\<close> and \<open>NotBeforeError\<close> are derived from \<open>JsonWebTokenError\<close>
  (their prototypes are created from \<open>JsonWebTokenError.prototype\<close>), so
  \<open>instanceof jwt.JsonWebTokenError\<close> holds for all three.
\<close>

datatype jwt_thrown = JsonWebTokenError | NotBeforeError | TokenExpiredError

fun instanceof_JsonWebTokenError :: "jwt_thrown \<Rightarrow> bool" where
  "instanceof_JsonWebTokenError JsonWebTokenError = True"
| "instanceof_JsonWebTokenError NotBeforeError = True"
| "instanceof_JsonWebTokenError TokenExpiredError = True"

fun instanceof_TokenExpiredError :: "jwt_thrown \<Rightarrow> bool" where
  "instanceof_TokenExpiredError TokenExpiredError = True"
| "instanceof_TokenExpiredError _ = False"

text \<open>
  \<open>jwt.verify(token, secret)\<close>: structure, then signature, then \<open>nbf\<close>, then
  \<open>exp\<close> (expired when the clock has reached it).
\<close>

definition jwt_verify :: "(string \<Rightarrow> credential) \<Rightarrow> nat \<Rightarrow> string \<Rightarrow> string \<Rightarrow> jwt_thrown + JWTPayload" where
  "jwt_verify decode t token secret =
     (case decode token of
        Malformed \<Rightarrow> Inl JsonWebTokenError
      | Signed key p \<Rightarrow>
          if key \<noteq> secret then Inl JsonWebTokenError
          else if (case jwt_nbf p of None \<Rightarrow> False | Some n \<Rightarrow> t < n) then Inl NotBeforeError
          else if (case jwt_exp p of None \<Rightarrow> False | Some x \<Rightarrow> x \<le> t) then Inl TokenExpiredError
          else Inr p)"

text \<open>JavaScript's \<open>a || b\<close> on optional strings: the empty string is falsy.\<close>

definition js_or :: "string option \<Rightarrow> string option \<Rightarrow> string option" where
  "js_or a b = (case a of None \<Rightarrow> b | Some v \<Rightarrow> if v = [] then b else Some v)"

text \<open>\<open>decoded.sub?.split('|')[0]\<close>.\<close>

definition sub_first_segment :: "string option \<Rightarrow> string option" where
  "sub_first_segment sub = map_option (takeWhile (\<lambda>c. c \<noteq> CHR ''|'')) sub"

text \<open>
  What the middleware does with a request: it calls \<open>next()\<close>, with or without a tenant
  context attached, answers with a status, an error code and a message, or passes the
  error on with \<open>next(error)\<close>.
\<close>

datatype outcome = Next "TenantContext option" | Responded nat string string | NextError jwt_thrown

definition tenantExtractorMiddleware :: "(string \<Rightarrow> credential) \<Rightarrow> string \<Rightarrow> nat \<Rightarrow> string option \<Rightarrow> outcome" where
  "tenantExtractorMiddleware decode jwtSecret t authHeader =
     (case authHeader of
        None \<Rightarrow> Next None
      | Some h \<Rightarrow>
          if h = [] then Next None
          else if take 7 h = ''Bearer '' then
            (case jwt_verify decode t (drop 7 h) jwtSecret of
               Inl err \<Rightarrow>
                 if instanceof_JsonWebTokenError err
                 then Responded 401 ''INVALID_TOKEN'' ''Token verification failed''
                 else if instanceof_TokenExpiredError err
                 then Responded 401 ''TOKEN_EXPIRED'' ''Token has expired''
                 else NextError err
             | Inr decoded \<Rightarrow>
                 (case js_or (jwt_tenant_id decoded) (sub_first_segment (jwt_sub decoded)) of
                    None \<Rightarrow> Responded 401 ''INVALID_TOKEN'' ''Token does not contain tenant_id''
                  | Some tenantId \<Rightarrow>
                      if tenantId = []
                      then Responded 401 ''INVALID_TOKEN'' ''Token does not contain tenant_id''
                      else Next (Some
                        \<lparr>ctx_tenantId = tenantId,
                         ctx_userId = jwt_sub decoded,
                         ctx_tenantName = jwt_tenant_name decoded,
                         ctx_plan = (case js_or (jwt_plan decoded) (Some ''free'') of
                                       None \<Rightarrow> ''free'' | Some v \<Rightarrow> v),
                         ctx_role = (case js_or (jwt_role decoded) (Some ''user'') of
                                       None \<Rightarrow> ''user'' | Some v \<Rightarrow> v),
                         ctx_permissions = (case jwt_permissions decoded of
                                              None \<Rightarrow> [] | Some ps \<Rightarrow> ps),
                         ctx_issuedAt = jwt_iat decoded,
                         ctx_expiresAt = jwt_exp decoded,
                         ctx_metadata = jwt_metadata decoded\<rparr>)))
          else Next None)"

section \<open>BaseRepository\<close>

text \<open>
  The repository of the order service: a table name, the in-memory list and the mode
  chosen at construction. \<open>query\<close> of the database configuration (the relational
  store) and the row mapping of the subclass are parameters.
\<close>

record 'a BaseRepository =
  repo_tableName :: string
  memoryStore :: "'a list"
  isMemoryMode :: bool

definition findAll_repo :: "(string \<Rightarrow> js_value list \<Rightarrow> error + row list) \<Rightarrow> (row \<Rightarrow> 'a)
    \<Rightarrow> 'a BaseRepository \<Rightarrow> error + 'a list" where
  "findAll_repo query mapRow repo =
     (if isMemoryMode repo then Inr (memoryStore repo)
      else (case query (''SELECT * FROM '' @ repo_tableName repo) [] of
              Inl e \<Rightarrow> Inl e
            | Inr result \<Rightarrow> Inr (map mapRow result)))"

definition find_repo :: "(string \<Rightarrow> js_value list \<Rightarrow> error + row list) \<Rightarrow> (row \<Rightarrow> 'a)
    \<Rightarrow> 'a BaseRepository \<Rightarrow> string \<Rightarrow> js_value list \<Rightarrow> error + 'a list" where
  "find_repo query mapRow repo whereClause values =
     (if isMemoryMode repo then Inr (memoryStore repo)
      else (case query (''SELECT * FROM '' @ repo_tableName repo @ '' WHERE '' @ whereClause) values of
              Inl e \<Rightarrow> Inl e
            | Inr result \<Rightarrow> Inr (map mapRow result)))"

section \<open>Example states\<close>

text \<open>Texts of uuids: two tenants, a stored order, a fresh id, an event and a user.\<close>

definition tenant1 :: string where
  "tenant1 = ''11111111-1111-1111-1111-111111111111''"

definition tenant2 :: string where
  "tenant2 = ''22222222-2222-2222-2222-222222222222''"

definition order1 :: string where
  "order1 = ''aaaaaaaa-aaaa-aaaa-aaaa-aaaaaaaaaaaa''"

definition fresh_id :: string where
  "fresh_id = ''bbbbbbbb-bbbb-bbbb-bbbb-bbbbbbbbbbbb''"

definition event1 :: string where
  "event1 = ''eeeeeeee-eeee-eeee-eeee-eeeeeeeeeeee''"

definition user1 :: string where
  "user1 = ''cccccccc-cccc-cccc-cccc-cccccccccccc''"

text \<open>
  A table with the columns of \<open>orders\<close>: the four UUID columns are read with
  \<open>uuid_in\<close>, the other columns keep the value written; the row must have its NOT NULL
  columns and a status of the CHECK list; quantity, the two status columns and the
  timestamps have defaults. In this example the store refuses every other statement
  text.
\<close>

definition orders_column_in :: "string \<Rightarrow> js_value \<Rightarrow> js_value option" where
  "orders_column_in c v =
     (if c \<in> set [''id'', ''tenant_id'', ''event_id'', ''user_id''] then
        (case v of
           JNull \<Rightarrow> Some JNull
         | JStr s \<Rightarrow> map_option JStr (uuid_in s)
         | _ \<Rightarrow> None)
      else if c \<in> set [''quantity'', ''unit_price'', ''total_price'', ''status'',
                        ''payment_method'', ''payment_status'', ''created_at'', ''updated_at'']
      then Some v
      else None)"

definition orders_accepts :: "row \<Rightarrow> bool" where
  "orders_accepts r =
     (list_all (\<lambda>c. case map_of r c of None \<Rightarrow> False | Some v \<Rightarrow> v \<noteq> JNull)
        [''tenant_id'', ''event_id'', ''user_id'', ''quantity'', ''unit_price'',
         ''total_price'', ''status'']
      \<and> map_of r ''status'' \<in> set [Some (JStr ''pending''), Some (JStr ''processing''),
                                     Some (JStr ''completed''), Some (JStr ''cancelled'')])"

definition orders_defaults :: "nat \<Rightarrow> row" where
  "orders_defaults t =
     [(''quantity'', JNum 1), (''status'', JStr ''pending''),
      (''payment_status'', JStr ''pending''), (''created_at'', JDate t),
      (''updated_at'', JDate t)]"

definition orders_schema :: table_schema where
  "orders_schema = \<lparr>tableName = ''orders'', column_in = orders_column_in,
                     accepts = orders_accepts, defaults = orders_defaults,
                     run_text = (\<lambda>text values s. (Inl Internal, s))\<rparr>"

definition env1 :: env where
  "env1 = \<lparr>env_now = 100, env_now2 = 101, env_db_now = 102, env_audit_now = 103,
            env_uuid = fresh_id, env_audit_rejects = False\<rparr>"

text \<open>A store that holds one order of tenant 2.\<close>

definition order_X :: row where
  "order_X = [(''id'', JStr order1), (''tenant_id'', JStr tenant2), (''event_id'', JStr event1),
              (''user_id'', JStr user1), (''quantity'', JNum 1), (''unit_price'', JNum 10),
              (''total_price'', JNum 10), (''status'', JStr ''pending''),
              (''payment_status'', JStr ''pending''), (''created_at'', JDate 50),
              (''updated_at'', JDate 50)]"

definition store1 :: store where
  "store1 = \<lparr>rows = [order_X], audit_logs = [], console = []\<rparr>"

text \<open>An object that names tenant 2 in a \<open>tenant_id\<close> key of its own, and the record created from it under tenant 1.\<close>

definition foreign_data :: row where
  "foreign_data = [(''tenant_id'', JStr tenant2), (''event_id'', JStr event1),
                   (''user_id'', JStr user1), (''unit_price'', JNum 10),
                   (''total_price'', JNum 20)]"

definition created_record :: row where
  "created_record =
     [(''tenant_id'', JStr tenant1), (''event_id'', JStr event1), (''user_id'', JStr user1),
      (''unit_price'', JNum 10), (''total_price'', JNum 20), (''created_at'', JDate 100),
      (''updated_at'', JDate 101), (''id'', JStr fresh_id), (''quantity'', JNum 1),
      (''status'', JStr ''pending''), (''payment_status'', JStr ''pending'')]"

text \<open>
  An object whose first key is a whole column list with its closing parenthesis and a
  comment mark, and the row the store writes for it under tenant 1.
\<close>

definition spliced_data :: row where
  "spliced_data =
     [(''tenant_id, event_id, user_id, unit_price, total_price, payment_method, created_at, updated_at) --'',
       JStr tenant2),
      (''event_id'', JStr event1), (''user_id'', JStr user1), (''unit_price'', JNum 10),
      (''total_price'', JNum 20)]"

definition spliced_record :: row where
  "spliced_record =
     [(''tenant_id'', JStr tenant2), (''event_id'', JStr event1), (''user_id'', JStr user1),
      (''unit_price'', JNum 10), (''total_price'', JNum 20), (''payment_method'', JStr tenant1),
      (''created_at'', JDate 100), (''updated_at'', JDate 101), (''id'', JStr fresh_id),
      (''quantity'', JNum 1), (''status'', JStr ''pending''),
      (''payment_status'', JStr ''pending'')]"

definition audited :: TenantQueryOptions where
  "audited = \<lparr>opt_tenantId = None, opt_userId = Some ''alice'', includeTenantId = False,
               validateTenantId = False, auditLog = True\<rparr>"

text \<open>
  Quotas of tenant 1: 999 of 1000 orders used, all 10000 API calls of the day used,
  and a reset date (100) that the clock (200) has passed.
\<close>

definition quota_t1 :: quota_row where
  "quota_t1 = \<lparr>tq_tenant_id = tenant1, tq_max_users = 10, tq_used_users = 3,
                tq_max_orders = 1000, tq_used_orders = 999, tq_max_events = 100,
                tq_used_events = 0, tq_storage_quota_mb = 1000, tq_used_storage_mb = 0,
                tq_api_calls_per_day = 10000, tq_used_api_calls = 10000,
                tq_reset_date = 100, tq_updated_at = 0\<rparr>"

definition tenant_db1 :: tenant_db where
  "tenant_db1 = \<lparr>tenants = [], tenant_settings = [], tenant_quotas = [quota_t1], clock = 200\<rparr>"

definition empty_db :: tenant_db where
  "empty_db = \<lparr>tenants = [], tenant_settings = [], tenant_quotas = [], clock = 5\<rparr>"

definition acme :: create_tenant_data where
  "acme = \<lparr>data_name = ''Acme'', data_slug = ''acme'', data_email = ''ops@acme.test'',
            data_plan = None\<rparr>"

text \<open>The same input with a slug of 100 letters followed by one space.\<close>

definition acme_long_slug :: create_tenant_data where
  "acme_long_slug = \<lparr>data_name = ''Acme'', data_slug = replicate 100 CHR ''g'' @ '' '',
                      data_email = ''ops@acme.test'', data_plan = None\<rparr>"

text \<open>
  A token signed with the right secret whose \<open>exp\<close> (50) lies before the clock (100),
  and a decoder that knows this one token.
\<close>

definition expired_payload :: JWTPayload where
  "expired_payload = \<lparr>jwt_sub = Some ''user-1'', jwt_tenant_id = Some ''t1'',
     jwt_tenant_name = None, jwt_role = Some ''admin'', jwt_permissions = None,
     jwt_plan = None, jwt_iat = Some 10, jwt_exp = Some 50, jwt_nbf = None,
     jwt_metadata = None\<rparr>"

definition decode1 :: "string \<Rightarrow> credential" where
  "decode1 token = (if token = ''expired.token'' then Signed ''secret'' expired_payload else Malformed)"

text \<open>
  Two orders, and a relational store holding a table that answers the two statements
  \<open>SELECT * FROM orders\<close> and \<open>SELECT * FROM orders WHERE status = $1\<close>.
\<close>

definition order_pending :: row where
  "order_pending = [(''id'', JStr ''o1''), (''status'', JStr ''pending'')]"

definition order_completed :: row where
  "order_completed = [(''id'', JStr ''o2''), (''status'', JStr ''completed'')]"

definition orders_query :: "row list \<Rightarrow> string \<Rightarrow> js_value list \<Rightarrow> error + row list" where
  "orders_query tbl text values =
     (if text = ''SELECT * FROM orders'' then Inr tbl
      else if text = ''SELECT * FROM orders WHERE status = $1'' then
        (case values of
           [v] \<Rightarrow> Inr (filter (\<lambda>r. map_of r ''status'' = Some v) tbl)
         | _ \<Rightarrow> Inl Internal)
      else Inl Internal)"

definition memory_repo :: "row BaseRepository" where
  "memory_repo = \<lparr>repo_tableName = ''orders'', memoryStore = [order_pending, order_completed],
                  isMemoryMode = True\<rparr>"

definition relational_repo :: "row BaseRepository" where
  "relational_repo = \<lparr>repo_tableName = ''orders'', memoryStore = [], isMemoryMode = False\<rparr>"

section \<open>Properties of BaseTenantRepository\<close>

subsection \<open>Auxiliary facts\<close>

lemma uuid_examples:
  "uuid_in tenant1 = Some tenant1" "uuid_in tenant2 = Some tenant2"
  "uuid_in order1 = Some order1" "uuid_in fresh_id = Some fresh_id"
  "uuid_in event1 = Some event1" "uuid_in user1 = Some user1"
  by (simp_all add: uuid_in_def hyphen_after_def hex_lower_def uuid_text_def
      tenant1_def tenant2_def order1_def fresh_id_def event1_def user1_def)

lemma uuid_in_not_uuid: "uuid_in ''X'' = None"
  by (simp add: uuid_in_def hyphen_after_def)

lemma tenants_differ: "tenant1 \<noteq> tenant2"
  by (simp add: tenant1_def tenant2_def)

lemma ids_differ: "fresh_id \<noteq> order1" "order1 \<noteq> fresh_id"
  by (simp_all add: fresh_id_def order1_def)

lemma rows_logAudit: "rows (logAudit e s t u a r rid c p) = rows s"
  by (simp add: logAudit_def audit_insert_def)

lemma col_eq_unique: "col_eq c a r \<Longrightarrow> col_eq c b r \<Longrightarrow> a = b"
  by (auto simp: col_eq_def split: if_splits)



lemma findById_absent:
  assumes "column_in sch ''tenant_id'' (JStr tenantId) = Some t"
      and "column_in sch ''id'' (JStr i) = Some v"
      and "filter (scoped t v) (rows s) = []"
  shows "findById sch s tenantId i = Inl NotFound"
  by (simp add: findById_def assms oneOrNone_def)

lemma findById_refused:
  "column_in sch ''tenant_id'' (JStr tenantId) = None \<Longrightarrow> findById sch s tenantId i = Inl Internal"
  "column_in sch ''id'' (JStr i) = None \<Longrightarrow> findById sch s tenantId i = Inl Internal"
  by (simp_all add: findById_def split: option.splits)


text \<open>Another spelling of a stored tenant id and id finds the row.\<close>

lemma findById_other_spelling:
  "findById orders_schema store1 ''22222222222222222222222222222222''
     ''{AAAAAAAA-AAAA-AAAA-AAAA-AAAAAAAAAAAA}'' = Inr order_X"
  by (simp add: findById_def orders_schema_def orders_column_in_def uuid_in_def
      hyphen_after_def hex_lower_def uuid_text_def store1_def order_X_def scoped_def
      col_eq_def oneOrNone_def tenant2_def order1_def)

subsection \<open>Read isolation\<close>




subsection \<open>Writes on an absent pair\<close>

text \<open>
  C2, as stated, fails: no order has the pair (tenant 1, \<open>X\<close>), but the text \<open>X\<close> is
  not a uuid, the store refuses the SELECT of \<open>findById\<close>, and \<open>update\<close> and
  \<open>delete\<close> fail with the store's error, not with \<open>NotFound\<close>.
\<close>

theorem write_absent_pair_counterexample:
  "filter (\<lambda>r. map_of r ''id'' = Some (JStr ''X'')) (rows store1) = []
   \<and> update orders_schema env1 store1 tenant1 ''X'' [(''status'', JStr ''completed'')] None
       = (Inl Internal, store1)
   \<and> delete orders_schema env1 store1 tenant1 ''X'' None = (Inl Internal, store1)"
  by (simp add: update_def delete_def findById_def orders_schema_def orders_column_in_def
      uuid_examples uuid_in_not_uuid store1_def order_X_def order1_def)

text \<open>
  C2, amended. When the store reads the tenant id and the id as values of their columns
  and no row has that pair, which includes a row with that id under another tenant,
  \<open>update\<close> and \<open>delete\<close> fail with \<open>NotFound\<close> and return the store as it was:
  rows, audit log and console. When the store cannot read one of the two, they fail
  with the store's error, and also return the store as it was.
\<close>

theorem write_absent_pair_fails_unchanged:
  "(column_in sch ''tenant_id'' (JStr tenantId) = Some t \<and> column_in sch ''id'' (JStr i) = Some v
      \<and> filter (scoped t v) (rows s) = []
    \<longrightarrow> update sch e s tenantId i data options = (Inl NotFound, s)
        \<and> delete sch e s tenantId i options = (Inl NotFound, s))
   \<and> (column_in sch ''tenant_id'' (JStr tenantId) = None \<or> column_in sch ''id'' (JStr i) = None
    \<longrightarrow> update sch e s tenantId i data options = (Inl Internal, s)
        \<and> delete sch e s tenantId i options = (Inl Internal, s))"
  using findById_absent[of sch tenantId t i v s]
    findById_refused(1)[where sch = sch and tenantId = tenantId and s = s and i = i]
    findById_refused(2)[where sch = sch and tenantId = tenantId and s = s and i = i]
  by (auto simp: update_def delete_def)

theorem write_absent_pair_fails_unchanged_witness:
  "column_in orders_schema ''tenant_id'' (JStr tenant1) = Some (JStr tenant1)
   \<and> column_in orders_schema ''id'' (JStr order1) = Some (JStr order1)
   \<and> filter (scoped (JStr tenant1) (JStr order1)) (rows store1) = []
   \<and> order_X \<in> set (rows store1) \<and> map_of order_X ''id'' = Some (JStr order1)
   \<and> update orders_schema env1 store1 tenant1 order1 [(''status'', JStr ''completed'')] (Some audited)
       = (Inl NotFound, store1)
   \<and> delete orders_schema env1 store1 tenant1 order1 (Some audited) = (Inl NotFound, store1)"
proof -
  have t: "column_in orders_schema ''tenant_id'' (JStr tenant1) = Some (JStr tenant1)"
    by (simp add: orders_schema_def orders_column_in_def uuid_examples)
  have v: "column_in orders_schema ''id'' (JStr order1) = Some (JStr order1)"
    by (simp add: orders_schema_def orders_column_in_def uuid_examples)
  have h: "filter (scoped (JStr tenant1) (JStr order1)) (rows store1) = []"
    by (simp add: store1_def order_X_def scoped_def col_eq_def tenants_differ[symmetric])
  have m: "order_X \<in> set (rows store1) \<and> map_of order_X ''id'' = Some (JStr order1)"
    by (simp add: store1_def order_X_def)
  from write_absent_pair_fails_unchanged[of orders_schema tenant1 "JStr tenant1" order1
      "JStr order1" store1 env1 "[(''status'', JStr ''completed'')]" "Some audited"] t v h m
  show ?thesis by blast
qed

subsection \<open>Audit failures\<close>

lemma logAudit_rejected:
  "logAudit (e\<lparr>env_audit_rejects := True\<rparr>) s t u a r rid c p
     = s\<lparr>console := console s @ [''Error logging audit:'']\<rparr>"
  by (simp add: logAudit_def audit_insert_def)

lemma fill_defaults_audit:
  "fill_defaults sch (e\<lparr>env_audit_rejects := b\<rparr>) given = fill_defaults sch e given"
  by (simp add: fill_defaults_def)

lemma insert_row_audit:
  "insert_row sch (e\<lparr>env_audit_rejects := b\<rparr>) rs cols vals = insert_row sch e rs cols vals"
  by (simp add: insert_row_def fill_defaults_audit Let_def cong: option.case_cong)

lemma run_insert_audit:
  "run_insert sch (e\<lparr>env_audit_rejects := b\<rparr>) s cols vals = run_insert sch e s cols vals"
  by (simp add: run_insert_def insert_row_audit cong: reading.case_cong)

lemma dataWithTenant_audit:
  "dataWithTenant (e\<lparr>env_audit_rejects := b\<rparr>) t data = dataWithTenant e t data"
  by (simp add: dataWithTenant_def)

lemma fst_create_audit: "fst (create sch (e\<lparr>env_audit_rejects := b\<rparr>) s t data options) = fst (create sch e s t data options)"
  by (simp add: create_def run_insert_audit dataWithTenant_audit split: sum.splits prod.splits)

lemma rows_create_audit: "rows (snd (create sch (e\<lparr>env_audit_rejects := b\<rparr>) s t data options)) = rows (snd (create sch e s t data options))"
  by (simp add: create_def run_insert_audit dataWithTenant_audit rows_logAudit
      split: sum.splits prod.splits)

lemma fst_update_audit: "fst (update sch (e\<lparr>env_audit_rejects := b\<rparr>) s t i data options) = fst (update sch e s t i data options)"
  by (simp add: update_def dataWithTimestamp_def split: sum.splits prod.splits)

lemma rows_update_audit: "rows (snd (update sch (e\<lparr>env_audit_rejects := b\<rparr>) s t i data options)) = rows (snd (update sch e s t i data options))"
  by (simp add: update_def dataWithTimestamp_def rows_logAudit split: sum.splits prod.splits)

lemma fst_delete_audit: "fst (delete sch (e\<lparr>env_audit_rejects := b\<rparr>) s t i options) = fst (delete sch e s t i options)"
  by (simp add: delete_def split: sum.splits prod.splits option.splits)

lemma rows_delete_audit: "rows (snd (delete sch (e\<lparr>env_audit_rejects := b\<rparr>) s t i options)) = rows (snd (delete sch e s t i options))"
  by (simp add: delete_def rows_logAudit split: sum.splits prod.splits option.splits)

text \<open>
  C5. \<open>logAudit\<close> returns normally when the audit insert is rejected, writing a line to
  the console; and for \<open>create\<close>, \<open>update\<close> and \<open>delete\<close> the result handed to
  the caller and the rows of the table are the same whether the audit insert is rejected
  or accepted.
\<close>

theorem audit_failure_not_propagated:
  "logAudit (e\<lparr>env_audit_rejects := True\<rparr>) s tenantId userId action resource rid changes previous
     = s\<lparr>console := console s @ [''Error logging audit:'']\<rparr>
   \<and> fst (create sch (e\<lparr>env_audit_rejects := True\<rparr>) s tenantId data options)
       = fst (create sch (e\<lparr>env_audit_rejects := False\<rparr>) s tenantId data options)
   \<and> rows (snd (create sch (e\<lparr>env_audit_rejects := True\<rparr>) s tenantId data options))
       = rows (snd (create sch (e\<lparr>env_audit_rejects := False\<rparr>) s tenantId data options))
   \<and> fst (update sch (e\<lparr>env_audit_rejects := True\<rparr>) s tenantId i data options)
       = fst (update sch (e\<lparr>env_audit_rejects := False\<rparr>) s tenantId i data options)
   \<and> rows (snd (update sch (e\<lparr>env_audit_rejects := True\<rparr>) s tenantId i data options))
       = rows (snd (update sch (e\<lparr>env_audit_rejects := False\<rparr>) s tenantId i data options))
   \<and> fst (delete sch (e\<lparr>env_audit_rejects := True\<rparr>) s tenantId i options)
       = fst (delete sch (e\<lparr>env_audit_rejects := False\<rparr>) s tenantId i options)
   \<and> rows (snd (delete sch (e\<lparr>env_audit_rejects := True\<rparr>) s tenantId i options))
       = rows (snd (delete sch (e\<lparr>env_audit_rejects := False\<rparr>) s tenantId i options))"
  by (simp only: logAudit_rejected fst_create_audit rows_create_audit fst_update_audit
      rows_update_audit fst_delete_audit rows_delete_audit simp_thms)

theorem audit_failure_not_propagated_witness:
  "create orders_schema (env1\<lparr>env_audit_rejects := True\<rparr>) store1 tenant1 foreign_data (Some audited)
     = (Inr created_record,
        store1\<lparr>rows := [order_X, created_record], console := [''Error logging audit:'']\<rparr>)
   \<and> fst (create orders_schema (env1\<lparr>env_audit_rejects := False\<rparr>) store1 tenant1 foreign_data (Some audited))
     = Inr created_record"
proof -
  have c: "create orders_schema (env1\<lparr>env_audit_rejects := True\<rparr>) store1 tenant1 foreign_data (Some audited)
     = (Inr created_record,
        store1\<lparr>rows := [order_X, created_record], console := [''Error logging audit:'']\<rparr>)"
    by (simp add: create_def run_insert_def statement_columns_def plain_identifier_def
      insert_row_def fill_defaults_def dataWithTenant_def one_def
      orders_schema_def orders_column_in_def orders_accepts_def orders_defaults_def
      env1_def store1_def foreign_data_def created_record_def order_X_def
      id_of_def wants_audit_def Let_def uuid_examples ids_differ audited_def logAudit_def
      audit_insert_def options_userId_def)
  from audit_failure_not_propagated[of env1 store1 tenant1 None "''CREATE''" "''orders''" None None None
      orders_schema foreign_data "Some audited" order1] c
  show ?thesis by simp
qed

subsection \<open>The injected tenant id\<close>

text \<open>
  When the keys of \<open>data\<close> are plain column names, the injected \<open>tenant_id\<close>
  overrides a key of that name in \<open>data\<close>, and the record \<open>create\<close> returns is the
  one row added and carries the tenant id as the store read it.
\<close>

lemma tenant_id_dataWithTenant:
  "map_of (dataWithTenant e t data) ''tenant_id'' = Some (JStr t)"
  by (simp add: dataWithTenant_def update_conv')

lemma keys_dataWithTenant:
  "set (map fst (dataWithTenant e t data))
     = {''tenant_id'', ''created_at'', ''updated_at''} \<union> set (map fst data)"
  by (auto simp: dataWithTenant_def dom_update)

lemma plain_injected:
  "plain_identifier ''tenant_id''" "plain_identifier ''created_at''" "plain_identifier ''updated_at''"
  by (simp_all add: plain_identifier_def)

lemma convert_map_of:
  "convert sch kvs = Some given \<Longrightarrow> map_of kvs k = Some x \<Longrightarrow> map_of given k = column_in sch k x"
proof (induction kvs arbitrary: given)
  case Nil
  then show ?case by simp
next
  case (Cons p kvs)
  obtain c w where p: "p = (c, w)" by (cases p)
  from Cons.prems(1) p obtain w' g where w': "column_in sch c w = Some w'"
    and g: "convert sch kvs = Some g" and gv: "given = (c, w') # g"
    by (auto split: option.splits)
  show ?case
  proof (cases "k = c")
    case True
    with Cons.prems(2) p have "x = w" by simp
    with True w' gv show ?thesis by simp
  next
    case False
    with Cons.prems(2) p have "map_of kvs k = Some x" by simp
    from Cons.IH[OF g this] False gv show ?thesis by simp
  qed
qed

lemma convert_keys: "convert sch kvs = Some given \<Longrightarrow> map fst given = map fst kvs"
  by (induction kvs arbitrary: given) (auto split: option.splits)

lemma create_plain_keys:
  assumes plain: "list_all plain_identifier (map fst data)"
      and cr: "create sch e s tenantId data options = (Inr record, s')"
  shows "map_of record ''tenant_id'' = column_in sch ''tenant_id'' (JStr tenantId)
       \<and> rows s' = rows s @ [record]"
proof -
  let ?d = "dataWithTenant e tenantId data"
  have "list_all plain_identifier (map fst ?d)"
    using plain keys_dataWithTenant[of e tenantId data] plain_injected
    by (auto simp: list_all_iff)
  then have sc: "statement_columns (map fst ?d) = Columns (map fst ?d)"
    by (simp add: statement_columns_def)
  from cr obtain given where g: "convert sch ?d = Some given"
    and r: "record = fill_defaults sch e given" and rs: "rows s' = rows s @ [record]"
    by (auto simp: create_def run_insert_def sc insert_row_def zip_map_fst_snd Let_def one_def
        rows_logAudit split: sum.splits prod.splits if_splits option.splits)
  from convert_map_of[OF g tenant_id_dataWithTenant]
  have "map_of given ''tenant_id'' = column_in sch ''tenant_id'' (JStr tenantId)" .
  moreover have "map_of given ''tenant_id'' \<noteq> None"
  proof -
    have "''tenant_id'' \<in> fst ` set ?d"
      using tenant_id_dataWithTenant[of e tenantId data] by (metis map_of_eq_None_iff option.simps(3))
    then have "''tenant_id'' \<in> fst ` set given"
      using convert_keys[OF g] by (metis set_map)
    then show ?thesis by (simp add: map_of_eq_None_iff)
  qed
  ultimately show ?thesis
    using r rs by (auto simp: fill_defaults_def map_add_Some_iff)
qed

text \<open>
  C10, at the failing input. The first key of the object is the text of a whole column
  list, closed by its own parenthesis and followed by a comment mark. Spliced into the
  INSERT, it makes the store read the columns before the comment and drop the rest of
  the line, the injected \<open>tenant_id\<close> included; the first value of the object, tenant
  2, becomes the \<open>tenant_id\<close> of the row, and the \<open>tenantId\<close> argument, tenant 1,
  lands in \<open>payment_method\<close>. The record \<open>create\<close> returns under tenant 1 is a
  row of tenant 2, and \<open>findAll\<close> under tenant 2 returns it.
\<close>

theorem create_spliced_key_foreign_tenant:
  "statement_columns (map fst (dataWithTenant env1 tenant1 spliced_data))
     = Columns [''tenant_id'', ''event_id'', ''user_id'', ''unit_price'', ''total_price'',
                ''payment_method'', ''created_at'', ''updated_at'']
   \<and> create orders_schema env1 store1 tenant1 spliced_data None
       = (Inr spliced_record, store1\<lparr>rows := [order_X, spliced_record]\<rparr>)
   \<and> map_of spliced_record ''tenant_id'' = Some (JStr tenant2)
   \<and> column_in orders_schema ''tenant_id'' (JStr tenant1) = Some (JStr tenant1)
   \<and> tenant1 \<noteq> tenant2
   \<and> findAll orders_schema (store1\<lparr>rows := [order_X, spliced_record]\<rparr>) tenant2 None
       = Inr [order_X, spliced_record]"
proof -
  have sc: "statement_columns (map fst (dataWithTenant env1 tenant1 spliced_data))
     = Columns [''tenant_id'', ''event_id'', ''user_id'', ''unit_price'', ''total_price'',
                ''payment_method'', ''created_at'', ''updated_at'']"
    by (simp add: statement_columns_def comment_reading_def plain_identifier_def trim_def
        dataWithTenant_def spliced_data_def)
  have vals: "map snd (dataWithTenant env1 tenant1 spliced_data)
     = [JStr tenant2, JStr event1, JStr user1, JNum 10, JNum 20, JStr tenant1, JDate 100, JDate 101]"
    by (simp add: dataWithTenant_def spliced_data_def env1_def)
  have cr: "create orders_schema env1 store1 tenant1 spliced_data None
       = (Inr spliced_record, store1\<lparr>rows := [order_X, spliced_record]\<rparr>)"
    unfolding create_def run_insert_def sc vals
    by (simp add: insert_row_def fill_defaults_def one_def
        orders_schema_def orders_column_in_def orders_accepts_def orders_defaults_def
        env1_def store1_def spliced_record_def order_X_def id_of_def wants_audit_def Let_def
        uuid_examples ids_differ)
  have t: "column_in orders_schema ''tenant_id'' (JStr tenant1) = Some (JStr tenant1)"
    by (simp add: orders_schema_def orders_column_in_def uuid_examples)
  have fa: "findAll orders_schema (store1\<lparr>rows := [order_X, spliced_record]\<rparr>) tenant2 None
       = Inr [order_X, spliced_record]"
    by (simp add: findAll_def or_default_def orders_schema_def orders_column_in_def
        uuid_examples col_eq_def order_X_def spliced_record_def)
  show ?thesis
    using sc cr t fa tenants_differ by (simp add: spliced_record_def)
qed

section \<open>Properties of TenantService\<close>

subsection \<open>Auxiliary facts\<close>

lemma one_single: "one [x] = Inr x"
  by (simp add: one_def)

lemma one_InrD: "one xs = Inr x \<Longrightarrow> xs = [x]"
  by (auto simp: one_def split: list.splits)

lemma oneOrNone_single: "oneOrNone [x] = Inr (Some x)"
  by (simp add: oneOrNone_def)

lemma filter_fresh:
  "k \<notin> set (map f xs) \<Longrightarrow> filter (\<lambda>r. f r = k \<and> P r) xs = []"
  by (induction xs) auto

lemma filter_fresh_key:
  "k \<notin> set (map f xs) \<Longrightarrow> filter (\<lambda>r. f r = k) xs = []"
  by (induction xs) auto

lemma select_quotas_example: "select_quotas tenant_db1 tenant1 = Inr [quota_t1]"
  by (simp add: select_quotas_def uuid_examples tenant_db1_def quota_t1_def)

lemma getQuotas_single:
  assumes "select_quotas db tenantId = Inr [r]"
  shows "getQuotas db tenantId =
           Inr \<lparr>quota_tenantId = tq_tenant_id r,
                maxUsers = tq_max_users r, usedUsers = tq_used_users r,
                maxOrders = tq_max_orders r, usedOrders = tq_used_orders r,
                maxEvents = tq_max_events r, usedEvents = tq_used_events r,
                storageQuota = tq_storage_quota_mb r, usedStorage = tq_used_storage_mb r,
                apiCallsPerDay = tq_api_calls_per_day r, usedApiCalls = tq_used_api_calls r,
                resetDate = tq_reset_date r\<rparr>"
  by (simp add: getQuotas_def assms one_single)

text \<open>
  Without exactly one quota row the read is rejected, and so is the validation; the
  same holds for a tenant id that is not the text of a uuid.
\<close>

lemma getQuotas_no_row:
  "select_quotas db tenantId = Inr [] \<Longrightarrow>
     getQuotas db tenantId = Inl Internal \<and> validateQuota db tenantId resource = Inl Internal"
  by (simp add: getQuotas_def validateQuota_def one_def)

lemma getQuotas_not_uuid:
  "uuid_in tenantId = None \<Longrightarrow>
     getQuotas db tenantId = Inl Internal \<and> validateQuota db tenantId resource = Inl Internal"
  by (simp add: getQuotas_def validateQuota_def select_quotas_def)

subsection \<open>The quota gate\<close>

text \<open>
  C4. For a tenant whose quotas \<open>getQuotas\<close> returns, \<open>validateQuota\<close> fails with
  \<open>QuotaExceeded\<close> exactly when the used counter of the resource has reached its
  ceiling, for each of users, orders, events and api_calls, and returns true otherwise;
  with a ceiling of 1000 orders it succeeds at 999 used and fails at 1000.
\<close>

theorem validateQuota_threshold:
  assumes "getQuotas db tenantId = Inr quota"
  shows "validateQuota db tenantId ''users''
           = (if usedUsers quota \<ge> maxUsers quota then Inl QuotaExceeded else Inr True)
       \<and> validateQuota db tenantId ''orders''
           = (if usedOrders quota \<ge> maxOrders quota then Inl QuotaExceeded else Inr True)
       \<and> validateQuota db tenantId ''events''
           = (if usedEvents quota \<ge> maxEvents quota then Inl QuotaExceeded else Inr True)
       \<and> validateQuota db tenantId ''api_calls''
           = (if usedApiCalls quota \<ge> apiCallsPerDay quota then Inl QuotaExceeded else Inr True)
       \<and> (maxOrders quota = 1000 \<and> usedOrders quota = 999
            \<longrightarrow> validateQuota db tenantId ''orders'' = Inr True)
       \<and> (maxOrders quota = 1000 \<and> usedOrders quota = 1000
            \<longrightarrow> validateQuota db tenantId ''orders'' = Inl QuotaExceeded)"
  using assms by (simp add: validateQuota_def)

lemma quotas_example:
  "getQuotas tenant_db1 tenant1 =
     Inr \<lparr>quota_tenantId = tenant1, maxUsers = 10, usedUsers = 3, maxOrders = 1000,
          usedOrders = 999, maxEvents = 100, usedEvents = 0, storageQuota = 1000,
          usedStorage = 0, apiCallsPerDay = 10000, usedApiCalls = 10000, resetDate = 100\<rparr>"
  by (simp add: getQuotas_single[OF select_quotas_example] quota_t1_def)

lemma increment_orders_example:
  "incrementQuota tenant_db1 tenant1 ''orders'' 1
     = (Inr (), tenant_db1\<lparr>tenant_quotas := [quota_t1\<lparr>tq_used_orders := 1000, tq_updated_at := 200\<rparr>]\<rparr>)"
  by (simp add: incrementQuota_def update_counter_def getQuotaFieldForResource_def quota_fields_def
      field_text_def counter_columns_def in_int4_def counter_of_def bump_def set_counter_def
      uuid_examples tenant_db1_def quota_t1_def)

theorem validateQuota_threshold_witness:
  "validateQuota tenant_db1 tenant1 ''orders'' = Inr True
   \<and> validateQuota tenant_db1 tenant1 ''api_calls'' = Inl QuotaExceeded
   \<and> validateQuota (snd (incrementQuota tenant_db1 tenant1 ''orders'' 1)) tenant1 ''orders''
       = Inl QuotaExceeded"
proof -
  have q2: "getQuotas (snd (incrementQuota tenant_db1 tenant1 ''orders'' 1)) tenant1 =
     Inr \<lparr>quota_tenantId = tenant1, maxUsers = 10, usedUsers = 3, maxOrders = 1000,
          usedOrders = 1000, maxEvents = 100, usedEvents = 0, storageQuota = 1000,
          usedStorage = 0, apiCallsPerDay = 10000, usedApiCalls = 10000, resetDate = 100\<rparr>"
    by (simp add: increment_orders_example getQuotas_def select_quotas_def uuid_examples
        quota_t1_def one_def)
  from validateQuota_threshold[OF quotas_example] validateQuota_threshold[OF q2]
  show ?thesis by simp
qed

subsection \<open>Onboarding round trip\<close>

lemma varchar_within: "length s \<le> n \<Longrightarrow> varchar n s = Some s' \<Longrightarrow> s' = s"
  by (auto simp: varchar_def split: if_splits)

lemma varchar_short: "varchar n s = Some s' \<Longrightarrow> length s' < n \<Longrightarrow> s' = s"
  by (auto simp: varchar_def split: if_splits)

lemma plan_stored:
  assumes "varchar 50 p = Some p'" and "p' \<in> set [''free'', ''pro'', ''enterprise'', ''custom'']"
  shows "p' = p"
proof -
  from assms(2) have "length p' < 50" by auto
  with assms(1) show ?thesis by (rule varchar_short)
qed

lemma createTenant_InrD:
  assumes "createTenant db u d1 d2 data = (Inr info, db')"
  shows "u \<notin> set (map t_id (tenants db))"
    and "u \<notin> set (map ts_tenant_id (tenant_settings db))"
    and "u \<notin> set (map tq_tenant_id (tenant_quotas db))"
    and "\<exists>name slug email.
           varchar 255 (data_name data) = Some name \<and> varchar 100 (data_slug data) = Some slug
           \<and> varchar 255 (data_email data) = Some email
           \<and> info = \<lparr>info_id = u, info_name = name, info_slug = slug,
                 info_email = email, info_plan = plan_or_free (data_plan data),
                 info_status = ''active'', info_createdAt = clock db,
                 info_updatedAt = clock db, info_settings = None\<rparr>
           \<and> tenants db' = tenants db @
               [\<lparr>t_id = u, t_name = name, t_slug = slug,
                 t_email = email, t_plan = plan_or_free (data_plan data),
                 t_status = ''active'', t_created_at = clock db, t_updated_at = clock db,
                 t_deleted_at = None\<rparr>]"
    and "tenant_settings db' = tenant_settings db @
           [\<lparr>ts_tenant_id = u, ts_max_users = 10, ts_max_orders = 1000, ts_max_events = 100,
             ts_features = [], ts_webhook_url = None, ts_custom_domain = None,
             ts_data_residency = ''us'', ts_encryption_enabled = False\<rparr>]"
    and "tenant_quotas db' = tenant_quotas db @
           [\<lparr>tq_tenant_id = u, tq_max_users = 10, tq_used_users = 0,
             tq_max_orders = 1000, tq_used_orders = 0, tq_max_events = 100,
             tq_used_events = 0, tq_storage_quota_mb = 1000, tq_used_storage_mb = 0,
             tq_api_calls_per_day = 10000, tq_used_api_calls = 0,
             tq_reset_date = clock db + d1 + d2 + 86400, tq_updated_at = clock db + d1 + d2\<rparr>]"
proof -
  from assms obtain name slug email plan tenant db1 db2 where
    v: "varchar 255 (data_name data) = Some name" "varchar 100 (data_slug data) = Some slug"
       "varchar 255 (data_email data) = Some email"
       "varchar 50 (plan_or_free (data_plan data)) = Some plan"
       "plan \<in> set [''free'', ''pro'', ''enterprise'', ''custom'']"
    and f1: "u \<notin> set (map t_id (tenants db))"
    and t: "tenant = \<lparr>t_id = u, t_name = name, t_slug = slug, t_email = email, t_plan = plan,
                      t_status = ''active'', t_created_at = clock db, t_updated_at = clock db,
                      t_deleted_at = None\<rparr>"
    and d1: "db1 = db\<lparr>tenants := tenants db @ [tenant]\<rparr>"
    and s2: "settings_insert (later d1 db1) u = Inr db2"
    and s3: "quotas_insert (later d2 db2) u = Inr db'"
    and i: "info = \<lparr>info_id = u, info_name = name, info_slug = slug, info_email = email,
                    info_plan = plan, info_status = ''active'', info_createdAt = clock db,
                    info_updatedAt = clock db, info_settings = None\<rparr>"
    by (auto simp: createTenant_def tenants_insert_def split: sum.splits prod.splits
        option.splits if_splits)
  have p: "plan = plan_or_free (data_plan data)" by (rule plan_stored[OF v(4,5)])
  from s2 have f2: "u \<notin> set (map ts_tenant_id (tenant_settings db))"
    and db2: "db2 = (later d1 db1)\<lparr>tenant_settings := tenant_settings db @
           [\<lparr>ts_tenant_id = u, ts_max_users = 10, ts_max_orders = 1000, ts_max_events = 100,
             ts_features = [], ts_webhook_url = None, ts_custom_domain = None,
             ts_data_residency = ''us'', ts_encryption_enabled = False\<rparr>]\<rparr>"
    by (auto simp: settings_insert_def later_def d1 split: if_splits)
  from s3 have f3: "u \<notin> set (map tq_tenant_id (tenant_quotas db))"
    and db': "db' = (later d2 db2)\<lparr>tenant_quotas := tenant_quotas db @
           [\<lparr>tq_tenant_id = u, tq_max_users = 10, tq_used_users = 0,
             tq_max_orders = 1000, tq_used_orders = 0, tq_max_events = 100,
             tq_used_events = 0, tq_storage_quota_mb = 1000, tq_used_storage_mb = 0,
             tq_api_calls_per_day = 10000, tq_used_api_calls = 0,
             tq_reset_date = clock db + d1 + d2 + 86400, tq_updated_at = clock db + d1 + d2\<rparr>]\<rparr>"
    by (auto simp: quotas_insert_def later_def db2 d1 split: if_splits)
  show "u \<notin> set (map t_id (tenants db))" by (rule f1)
  show "u \<notin> set (map ts_tenant_id (tenant_settings db))" by (rule f2)
  show "u \<notin> set (map tq_tenant_id (tenant_quotas db))" by (rule f3)
  show "\<exists>name slug email.
           varchar 255 (data_name data) = Some name \<and> varchar 100 (data_slug data) = Some slug
           \<and> varchar 255 (data_email data) = Some email
           \<and> info = \<lparr>info_id = u, info_name = name, info_slug = slug,
                 info_email = email, info_plan = plan_or_free (data_plan data),
                 info_status = ''active'', info_createdAt = clock db,
                 info_updatedAt = clock db, info_settings = None\<rparr>
           \<and> tenants db' = tenants db @
               [\<lparr>t_id = u, t_name = name, t_slug = slug,
                 t_email = email, t_plan = plan_or_free (data_plan data),
                 t_status = ''active'', t_created_at = clock db, t_updated_at = clock db,
                 t_deleted_at = None\<rparr>]"
    using v(1,2,3) i p by (simp add: db' db2 d1 later_def t)
  show "tenant_settings db' = tenant_settings db @
           [\<lparr>ts_tenant_id = u, ts_max_users = 10, ts_max_orders = 1000, ts_max_events = 100,
             ts_features = [], ts_webhook_url = None, ts_custom_domain = None,
             ts_data_residency = ''us'', ts_encryption_enabled = False\<rparr>]"
    by (simp add: db' db2 later_def)
  show "tenant_quotas db' = tenant_quotas db @
           [\<lparr>tq_tenant_id = u, tq_max_users = 10, tq_used_users = 0,
             tq_max_orders = 1000, tq_used_orders = 0, tq_max_events = 100,
             tq_used_events = 0, tq_storage_quota_mb = 1000, tq_used_storage_mb = 0,
             tq_api_calls_per_day = 10000, tq_used_api_calls = 0,
             tq_reset_date = clock db + d1 + d2 + 86400, tq_updated_at = clock db + d1 + d2\<rparr>]"
    by (simp add: db')
qed

text \<open>
  C6, as stated, fails: with a slug of 100 letters followed by a space the onboarding
  succeeds, the column of type VARCHAR(100) cuts the space off, and both
  \<open>createTenant\<close> and \<open>getTenantInfo\<close> return a slug that is not the slug of the
  input.
\<close>

theorem createTenant_long_slug_counterexample:
  "data_slug acme_long_slug = replicate 100 CHR ''g'' @ '' ''
   \<and> map_sum id info_slug (fst (createTenant empty_db tenant1 1 2 acme_long_slug))
       = Inr (replicate 100 CHR ''g'')
   \<and> map_sum id info_slug
        (getTenantInfo (snd (createTenant empty_db tenant1 1 2 acme_long_slug)) tenant1)
       = Inr (replicate 100 CHR ''g'')
   \<and> replicate 100 CHR ''g'' \<noteq> data_slug acme_long_slug"
  by (simp add: createTenant_def tenants_insert_def settings_insert_def quotas_insert_def
      later_def varchar_def plan_or_free_def getTenantInfo_def getTenantSettings_def
      oneOrNone_def uuid_examples acme_long_slug_def empty_db_def)

text \<open>
  C6, amended. When \<open>createTenant\<close> returns a tenant, \<open>getTenantInfo\<close> on the returned
  id yields that tenant with the name, slug and email of the input as their columns
  store them (the input itself whenever it is within the column's length: 255, 100 and
  255 characters), the plan of the input (\<open>free\<close> when none is supplied), status
  \<open>active\<close>, and the settings of the row just written (10 users, 1000 orders, 100
  events); and \<open>getQuotas\<close> returns the quota row just written, with its ceilings and
  all counters at zero. The returned id is the text of a uuid as the store prints it.
\<close>

theorem createTenant_round_trip:
  assumes "createTenant db u d1 d2 data = (Inr info, db')" and "uuid_in u = Some u"
  shows "getTenantInfo db' (info_id info) =
           Inr (info\<lparr>info_settings := Some
                  \<lparr>settings_maxUsers = 10, settings_maxOrders = 1000, settings_maxEvents = 100,
                   settings_features = Some [], settings_webhookUrl = None,
                   settings_customDomain = None, settings_dataResidency = ''us'',
                   settings_encryptionEnabled = False\<rparr>\<rparr>)
       \<and> varchar 255 (data_name data) = Some (info_name info)
       \<and> varchar 100 (data_slug data) = Some (info_slug info)
       \<and> varchar 255 (data_email data) = Some (info_email info)
       \<and> (length (data_name data) \<le> 255 \<longrightarrow> info_name info = data_name data)
       \<and> (length (data_slug data) \<le> 100 \<longrightarrow> info_slug info = data_slug data)
       \<and> (length (data_email data) \<le> 255 \<longrightarrow> info_email info = data_email data)
       \<and> info_plan info = (case data_plan data of None \<Rightarrow> ''free''
                             | Some p \<Rightarrow> if p = [] then ''free'' else p)
       \<and> info_status info = ''active''
       \<and> getQuotas db' (info_id info) =
           Inr \<lparr>quota_tenantId = info_id info, maxUsers = 10, usedUsers = 0, maxOrders = 1000,
                usedOrders = 0, maxEvents = 100, usedEvents = 0, storageQuota = 1000,
                usedStorage = 0, apiCallsPerDay = 10000, usedApiCalls = 0,
                resetDate = clock db + d1 + d2 + 86400\<rparr>"
proof -
  note d = createTenant_InrD[OF assms(1)]
  from d(4) obtain name slug email where
    v: "varchar 255 (data_name data) = Some name" "varchar 100 (data_slug data) = Some slug"
       "varchar 255 (data_email data) = Some email"
    and i: "info = \<lparr>info_id = u, info_name = name, info_slug = slug,
                 info_email = email, info_plan = plan_or_free (data_plan data),
                 info_status = ''active'', info_createdAt = clock db,
                 info_updatedAt = clock db, info_settings = None\<rparr>"
    and t: "tenants db' = tenants db @
               [\<lparr>t_id = u, t_name = name, t_slug = slug,
                 t_email = email, t_plan = plan_or_free (data_plan data),
                 t_status = ''active'', t_created_at = clock db, t_updated_at = clock db,
                 t_deleted_at = None\<rparr>]"
    by blast
  have ft: "filter (\<lambda>r. t_id r = u \<and> t_deleted_at r = None) (tenants db) = []"
    using d(1) by (rule filter_fresh)
  have fs: "filter (\<lambda>r. ts_tenant_id r = u) (tenant_settings db) = []"
    using d(2) by (rule filter_fresh_key)
  have fq: "filter (\<lambda>r. tq_tenant_id r = u) (tenant_quotas db) = []"
    using d(3) by (rule filter_fresh_key)
  have s: "getTenantSettings db' u =
             Inr \<lparr>settings_maxUsers = 10, settings_maxOrders = 1000, settings_maxEvents = 100,
                  settings_features = Some [], settings_webhookUrl = None,
                  settings_customDomain = None, settings_dataResidency = ''us'',
                  settings_encryptionEnabled = False\<rparr>"
    by (simp add: getTenantSettings_def assms(2) d(5) fs oneOrNone_single)
  have gi: "getTenantInfo db' u =
           Inr (info\<lparr>info_settings := Some
                  \<lparr>settings_maxUsers = 10, settings_maxOrders = 1000, settings_maxEvents = 100,
                   settings_features = Some [], settings_webhookUrl = None,
                   settings_customDomain = None, settings_dataResidency = ''us'',
                   settings_encryptionEnabled = False\<rparr>\<rparr>)"
    by (simp add: getTenantInfo_def assms(2) t ft oneOrNone_single s i)
  have q: "getQuotas db' u =
           Inr \<lparr>quota_tenantId = u, maxUsers = 10, usedUsers = 0, maxOrders = 1000,
                usedOrders = 0, maxEvents = 100, usedEvents = 0, storageQuota = 1000,
                usedStorage = 0, apiCallsPerDay = 10000, usedApiCalls = 0,
                resetDate = clock db + d1 + d2 + 86400\<rparr>"
    by (simp add: getQuotas_def select_quotas_def assms(2) d(6) fq one_single)
  have id: "info_id info = u" by (simp add: i)
  have w: "length (data_name data) \<le> 255 \<longrightarrow> name = data_name data"
          "length (data_slug data) \<le> 100 \<longrightarrow> slug = data_slug data"
          "length (data_email data) \<le> 255 \<longrightarrow> email = data_email data"
    using v varchar_within by blast+
  show ?thesis
    unfolding id using gi q v w by (simp add: i plan_or_free_def)
qed

text \<open>The onboarding succeeds for a fresh id and slug, texts within bounds and a known plan.\<close>

lemma createTenant_succeeds:
  assumes "u \<notin> set (map t_id (tenants db))" and "data_slug data \<notin> set (map t_slug (tenants db))"
      and "varchar 255 (data_name data) = Some (data_name data)"
      and "varchar 100 (data_slug data) = Some (data_slug data)"
      and "varchar 255 (data_email data) = Some (data_email data)"
      and "plan_or_free (data_plan data) \<in> set [''free'', ''pro'', ''enterprise'', ''custom'']"
      and "u \<notin> set (map ts_tenant_id (tenant_settings db))"
      and "u \<notin> set (map tq_tenant_id (tenant_quotas db))"
  shows "\<exists>info db'. createTenant db u d1 d2 data = (Inr info, db')"
proof -
  from assms(6) have "length (plan_or_free (data_plan data)) \<le> 50" by auto
  moreover from assms(6) have "CHR 0x00 \<notin> set (plan_or_free (data_plan data))" by auto
  ultimately have "varchar 50 (plan_or_free (data_plan data)) = Some (plan_or_free (data_plan data))"
    by (simp add: varchar_def)
  with assms show ?thesis
    by (simp add: createTenant_def tenants_insert_def settings_insert_def quotas_insert_def
        later_def)
qed

lemma createTenant_example:
  "createTenant empty_db tenant1 1 2 acme
     = (Inr \<lparr>info_id = tenant1, info_name = ''Acme'', info_slug = ''acme'',
             info_email = ''ops@acme.test'', info_plan = ''free'', info_status = ''active'',
             info_createdAt = 5, info_updatedAt = 5, info_settings = None\<rparr>,
        snd (createTenant empty_db tenant1 1 2 acme))"
  by (simp add: createTenant_def tenants_insert_def settings_insert_def quotas_insert_def
      later_def varchar_def acme_def plan_or_free_def empty_db_def)

theorem createTenant_round_trip_witness:
  "uuid_in tenant1 = Some tenant1
   \<and> getTenantInfo (snd (createTenant empty_db tenant1 1 2 acme)) tenant1
   = Inr \<lparr>info_id = tenant1, info_name = ''Acme'', info_slug = ''acme'',
          info_email = ''ops@acme.test'', info_plan = ''free'', info_status = ''active'',
          info_createdAt = 5, info_updatedAt = 5,
          info_settings = Some
            \<lparr>settings_maxUsers = 10, settings_maxOrders = 1000, settings_maxEvents = 100,
             settings_features = Some [], settings_webhookUrl = None,
             settings_customDomain = None, settings_dataResidency = ''us'',
             settings_encryptionEnabled = False\<rparr>\<rparr>
   \<and> map_sum id resetDate (getQuotas (snd (createTenant empty_db tenant1 1 2 acme)) tenant1)
       = Inr (clock empty_db + 1 + 2 + 86400)"
  using createTenant_round_trip[OF createTenant_example uuid_examples(1)] uuid_examples(1)
  by simp

subsection \<open>The api_calls counter and the reset date\<close>

lemma reset_date_bump: "tq_reset_date (bump f amount t q) = tq_reset_date q"
  by (simp add: bump_def set_counter_def split: option.splits)

lemma tenant_bump: "tq_tenant_id (bump f amount t q) = tq_tenant_id q"
  by (simp add: bump_def set_counter_def split: option.splits)

lemma reset_dates_incrementQuota:
  "map tq_reset_date (tenant_quotas (snd (incrementQuota db tenantId resource amount)))
     = map tq_reset_date (tenant_quotas db)"
  by (simp add: incrementQuota_def update_counter_def reset_date_bump o_def
      split: sum.splits option.splits cong: map_cong)

lemma filter_map_bump:
  "filter (\<lambda>r. tq_tenant_id r = u)
     (map (\<lambda>q. if tq_tenant_id q = u then bump f amount t q else q) qs)
   = map (bump f amount t) (filter (\<lambda>r. tq_tenant_id r = u) qs)"
  by (induction qs) (auto simp: tenant_bump)

lemma incrementQuota_api_calls:
  assumes "select_quotas db tenantId = Inr [quota]"
      and "incrementQuota db tenantId ''api_calls'' amount = (Inr (), db')"
  shows "select_quotas db' tenantId
           = Inr [quota\<lparr>tq_used_api_calls := tq_used_api_calls quota + amount,
                        tq_updated_at := clock db\<rparr>]"
proof -
  from assms(1) obtain u where u: "uuid_in tenantId = Some u"
    and f: "filter (\<lambda>r. tq_tenant_id r = u) (tenant_quotas db) = [quota]"
    by (auto simp: select_quotas_def split: option.splits)
  have ft: "field_text (getQuotaFieldForResource ''api_calls'') = ''used_api_calls''"
    by (simp add: getQuotaFieldForResource_def quota_fields_def field_text_def)
  have b: "bump ''used_api_calls'' amount t q
             = q\<lparr>tq_used_api_calls := tq_used_api_calls q + amount, tq_updated_at := t\<rparr>" for t q
    by (simp add: bump_def counter_of_def set_counter_def)
  from assms(2) have db': "tenant_quotas db' =
      map (\<lambda>q. if tq_tenant_id q = u then bump ''used_api_calls'' amount (clock db) q else q)
        (tenant_quotas db)"
    by (auto simp: incrementQuota_def update_counter_def ft u split: sum.splits if_splits)
  show ?thesis
    by (simp add: select_quotas_def u db' filter_map_bump f b)
qed

text \<open>
  C7, as stated, fails: with the clock (200) past the reset date (100) and all 10000
  API calls used, \<open>getQuotas\<close> still reports 10000 used calls and the old reset date,
  \<open>validateQuota\<close> still fails, and \<open>incrementQuota\<close> counts on from 10000 and
  leaves the reset date where it was.
\<close>

theorem api_calls_reset_counterexample:
  "tq_reset_date quota_t1 < clock tenant_db1
   \<and> getQuotas tenant_db1 tenant1 =
       Inr \<lparr>quota_tenantId = tenant1, maxUsers = 10, usedUsers = 3, maxOrders = 1000,
            usedOrders = 999, maxEvents = 100, usedEvents = 0, storageQuota = 1000,
            usedStorage = 0, apiCallsPerDay = 10000, usedApiCalls = 10000, resetDate = 100\<rparr>
   \<and> validateQuota tenant_db1 tenant1 ''api_calls'' = Inl QuotaExceeded
   \<and> incrementQuota tenant_db1 tenant1 ''api_calls'' 1
       = (Inr (), tenant_db1\<lparr>tenant_quotas :=
            [quota_t1\<lparr>tq_used_api_calls := 10001, tq_updated_at := 200\<rparr>]\<rparr>)"
  by (simp add: getQuotas_def select_quotas_def validateQuota_def one_def incrementQuota_def
      update_counter_def getQuotaFieldForResource_def quota_fields_def field_text_def
      counter_columns_def in_int4_def counter_of_def bump_def set_counter_def uuid_examples
      tenant_db1_def quota_t1_def)

text \<open>
  C7, amended. The service never resets the api_calls counter nor moves the reset date,
  wherever the clock stands: for a tenant with one quota row, \<open>getQuotas\<close> returns the
  stored \<open>used_api_calls\<close> and \<open>reset_date\<close>, \<open>validateQuota\<close> compares the stored
  counter with \<open>api_calls_per_day\<close>, \<open>incrementQuota\<close> leaves every reset date as
  stored, and a successful increment of api_calls adds the amount to the stored counter.
\<close>

theorem api_calls_never_reset:
  assumes "select_quotas db tenantId = Inr [quota]"
  shows "map_sum id usedApiCalls (getQuotas db tenantId) = Inr (tq_used_api_calls quota)
       \<and> map_sum id resetDate (getQuotas db tenantId) = Inr (tq_reset_date quota)
       \<and> validateQuota db tenantId ''api_calls''
           = (if tq_used_api_calls quota \<ge> tq_api_calls_per_day quota
              then Inl QuotaExceeded else Inr True)
       \<and> map tq_reset_date (tenant_quotas (snd (incrementQuota db tenantId resource amount)))
           = map tq_reset_date (tenant_quotas db)
       \<and> (incrementQuota db tenantId ''api_calls'' amount = (Inr (), db') \<longrightarrow>
            select_quotas db' tenantId
              = Inr [quota\<lparr>tq_used_api_calls := tq_used_api_calls quota + amount,
                           tq_updated_at := clock db\<rparr>])"
  using getQuotas_single[OF assms] reset_dates_incrementQuota[of db tenantId resource amount]
    incrementQuota_api_calls[OF assms, of amount db']
  by (simp add: validateQuota_def)

theorem api_calls_never_reset_witness:
  "select_quotas tenant_db1 tenant1 = Inr [quota_t1]
   \<and> tq_reset_date quota_t1 < clock tenant_db1
   \<and> map_sum id usedApiCalls (getQuotas tenant_db1 tenant1) = Inr 10000
   \<and> map_sum id resetDate (getQuotas tenant_db1 tenant1) = Inr 100
   \<and> validateQuota tenant_db1 tenant1 ''api_calls'' = Inl QuotaExceeded"
proof -
  have c: "tq_reset_date quota_t1 < clock tenant_db1"
    by (simp add: tenant_db1_def quota_t1_def)
  from api_calls_never_reset[OF select_quotas_example, of "''api_calls''" 1 tenant_db1]
    select_quotas_example c
  show ?thesis by (simp add: quota_t1_def)
qed

subsection \<open>Unknown resource names\<close>

text \<open>
  A name that is neither an own key of the field table nor a name of
  \<open>Object.prototype\<close> is mapped to \<open>used_orders\<close>, and the increment then goes to
  the tenant's \<open>used_orders\<close> counter.
\<close>

lemma unknown_resource_field:
  assumes "quota_fields resource = None"
  shows "field_text (getQuotaFieldForResource resource) = ''used_orders''"
  by (simp add: getQuotaFieldForResource_def assms field_text_def)

lemma unknown_resource_counts_orders:
  assumes "quota_fields resource = None" and "uuid_in tenantId = Some u"
      and "filter (\<lambda>r. tq_tenant_id r = u) (tenant_quotas db) = [quota]"
      and "in_int4 (tq_used_orders quota + amount)"
  shows "incrementQuota db tenantId resource amount =
           (Inr (), db\<lparr>tenant_quotas :=
              map (\<lambda>q. if tq_tenant_id q = u
                        then q\<lparr>tq_used_orders := tq_used_orders q + amount, tq_updated_at := clock db\<rparr>
                        else q) (tenant_quotas db)\<rparr>)"
proof -
  have b: "bump ''used_orders'' amount t q
             = q\<lparr>tq_used_orders := tq_used_orders q + amount, tq_updated_at := t\<rparr>" for t q
    by (simp add: bump_def counter_of_def set_counter_def)
  show ?thesis
    by (simp add: incrementQuota_def update_counter_def unknown_resource_field[OF assms(1)]
        counter_columns_def assms(2,3,4) counter_of_def b)
qed

text \<open>
  C9, at the failing input. \<open>constructor\<close> is outside the recognized names, yet the
  field table yields the inherited \<open>Object\<close> function for it, the statement built from
  its text is refused, and the call fails with the quotas unchanged: nothing is added
  to \<open>used_orders\<close>.
\<close>

theorem incrementQuota_inherited_name_fails:
  "''constructor'' \<notin> set [''users'', ''orders'', ''events'', ''api_calls'', ''storage'']
   \<and> getQuotaFieldForResource ''constructor'' = FNative ''Object''
   \<and> field_text (getQuotaFieldForResource ''constructor'') = ''function Object() { [native code] }''
   \<and> incrementQuota tenant_db1 tenant1 ''constructor'' 1 = (Inl Internal, tenant_db1)
   \<and> incrementQuota tenant_db1 tenant1 ''widgets'' 1
       = (Inr (), tenant_db1\<lparr>tenant_quotas :=
            [quota_t1\<lparr>tq_used_orders := 1000, tq_updated_at := 200\<rparr>]\<rparr>)"
  by (simp add: incrementQuota_def update_counter_def getQuotaFieldForResource_def
      quota_fields_def object_prototype_functions_def field_text_def counter_columns_def
      in_int4_def counter_of_def bump_def set_counter_def uuid_examples tenant_db1_def
      quota_t1_def)

section \<open>Properties of the tenant extraction middleware\<close>

text \<open>
  Whatever \<open>jwt.verify\<close> throws is an instance of \<open>JsonWebTokenError\<close>, so the first
  test of the \<open>catch\<close> block takes every error and the answer \<open>TOKEN_EXPIRED\<close> is
  never given.
\<close>

lemma instanceof_JsonWebTokenError_all: "instanceof_JsonWebTokenError err"
  by (cases err) simp_all

lemma never_token_expired:
  "tenantExtractorMiddleware decode jwtSecret t authHeader \<noteq> Responded c ''TOKEN_EXPIRED'' m"
  by (simp add: tenantExtractorMiddleware_def instanceof_JsonWebTokenError_all
      split: option.splits sum.splits)

lemma expired_token_thrown:
  assumes "decode token = Signed jwtSecret p" and "jwt_nbf p = None" and "jwt_exp p = Some x"
      and "x \<le> t"
  shows "jwt_verify decode t token jwtSecret = Inl TokenExpiredError"
  by (simp add: jwt_verify_def assms)

lemma expired_token_invalid:
  assumes "decode token = Signed jwtSecret p" and "jwt_nbf p = None" and "jwt_exp p = Some x"
      and "x \<le> t"
  shows "tenantExtractorMiddleware decode jwtSecret t (Some (''Bearer '' @ token))
           = Responded 401 ''INVALID_TOKEN'' ''Token verification failed''"
  using expired_token_thrown[of decode token jwtSecret p x t] assms
  by (simp add: tenantExtractorMiddleware_def)

text \<open>
  C3, at the failing input. For a token signed with the right secret whose \<open>exp\<close> (50)
  lies before the clock (100), \<open>jwt.verify\<close> throws \<open>TokenExpiredError\<close>, and the
  middleware answers 401 with the code \<open>INVALID_TOKEN\<close>, not \<open>TOKEN_EXPIRED\<close>.
\<close>

theorem expired_token_answered_invalid:
  "jwt_verify decode1 100 ''expired.token'' ''secret'' = Inl TokenExpiredError
   \<and> tenantExtractorMiddleware decode1 ''secret'' 100 (Some ''Bearer expired.token'')
       = Responded 401 ''INVALID_TOKEN'' ''Token verification failed''"
  by (simp add: tenantExtractorMiddleware_def jwt_verify_def decode1_def expired_payload_def)

section \<open>Properties of BaseRepository\<close>

text \<open>In memory mode \<open>find\<close> returns the whole list, whatever the clause and the values.\<close>

lemma find_repo_memory:
  "isMemoryMode repo \<Longrightarrow> find_repo query mapRow repo whereClause values = Inr (memoryStore repo)"
  by (simp add: find_repo_def)

lemma find_repo_memory_is_findAll:
  "isMemoryMode repo \<Longrightarrow>
     find_repo query mapRow repo whereClause values = findAll_repo query mapRow repo"
  by (simp add: find_repo_def findAll_repo_def)

text \<open>
  C8, at the failing input. With the same two orders in the in-memory list and in the
  relational table, \<open>find('status = $1', ['completed'])\<close> returns both orders in memory
  mode, the pending one included, and only the completed order in relational mode.
\<close>

theorem find_memory_ignores_filter:
  "find_repo (orders_query [order_pending, order_completed]) (\<lambda>r. r) memory_repo
       ''status = $1'' [JStr ''completed'']
     = Inr [order_pending, order_completed]
   \<and> find_repo (orders_query [order_pending, order_completed]) (\<lambda>r. r) relational_repo
       ''status = $1'' [JStr ''completed'']
     = Inr [order_completed]
   \<and> map_of order_pending ''status'' = Some (JStr ''pending'')"
  by (simp add: find_repo_def orders_query_def memory_repo_def relational_repo_def
      order_pending_def order_completed_def)

end
